theory Spec2Isabelle
  imports Main
begin

section \<open>Data model\<close>

text \<open>
  The repository has two halves that talk over HTTP: the server-side route dispatcher
  (\<^verbatim>\<open>createAssistantRoutes\<close>, with its table \<^verbatim>\<open>routeHandlers\<close>) and the
  client-side \<^verbatim>\<open>ThreadManager\<close>, wrapped by the React hook \<^verbatim>\<open>useThread\<close>.
  JavaScript's \<^verbatim>\<open>undefined\<close>/\<^verbatim>\<open>null\<close> is \<open>None\<close>; a thrown error is the
  \<open>Inl\<close> of a sum.
\<close>

datatype error = Error string | TypeError string

text \<open>
  JavaScript values as far as the code handles them: request bodies, parsed arguments and
  the results of tool calls. An object is the list of its properties in the order in which
  they were created, with distinct keys. \<open>JUndefined\<close> stands for \<^verbatim>\<open>undefined\<close> and for a
  function, the values that \<^verbatim>\<open>JSON.stringify\<close> leaves out of an object.
\<close>

datatype json = JNull | JUndefined | JBool bool | JStr string | JObj "(string \<times> json) list"

record tool =
  tool_type :: string
  tool_function_name :: string

record assistant =
  assistant_id :: string
  assistant_name :: "string option"
  tools :: "tool list"

record tool_call =
  call_id :: string
  call_type :: string
  call_function_name :: string
  call_function_arguments :: string

record run =
  run_id :: string
  run_status :: string
  required_action :: "tool_call list option"

record message =
  message_id :: string
  message_role :: string
  message_content :: string
  created_at :: nat

text \<open>
  What a response body holds. \<open>PMessagePage\<close> and \<open>PRunPage\<close> are the list objects of the
  remote service (their \<^verbatim>\<open>data\<close> field); \<open>PArray\<close> is a bare array, the initial value of
  \<^verbatim>\<open>ThreadManager.messages\<close>; \<open>PEnvelope\<close> is the dispatcher's \<^verbatim>\<open>{ error: ... }\<close>.
\<close>

datatype payload =
    PAssistant assistant
  | PTools "tool list"
  | PThread string
  | PMessage message
  | PMessagePage "message list"
  | PRun run
  | PRunPage "run list"
  | PSubmitted
  | PFile string
  | PArray "message list"
  | PEnvelope string

record request =
  req_method :: string
  req_assistantId :: string
  req_params :: "string list"
  req_body :: "json option"

record response =
  resp_status :: nat
  resp_json :: payload

definition ok :: "response \<Rightarrow> bool" where
  "ok r = (200 \<le> resp_status r \<and> resp_status r \<le> 299)"

text \<open>
  Assignment to a property of an object (\<^verbatim>\<open>o[k] = v\<close>): an existing key keeps its place
  in the order of creation, a new key goes last.
\<close>

fun assign :: "string \<Rightarrow> 'v \<Rightarrow> (string \<times> 'v) list \<Rightarrow> (string \<times> 'v) list" where
  "assign k v [] = [(k, v)]"
| "assign k v ((k', v') # kvs) =
     (if k = k' then (k, v) # kvs else (k', v') # assign k v kvs)"

text \<open>
  Enumeration of an object's own properties (\<^verbatim>\<open>JSON.stringify\<close>, \<^verbatim>\<open>Object.entries\<close>,
  object spread): first the keys that are array indices (a decimal numeral without leading
  zero, below \<open>2\<^sup>3\<^sup>2 - 1\<close>) in ascending numeric order, then the other keys in the order
  of their creation.
\<close>

definition digit :: "char \<Rightarrow> nat option" where
  "digit c =
     (if 48 \<le> (of_char c :: nat) \<and> (of_char c :: nat) \<le> 57 then Some (of_char c - 48)
      else None)"

fun number_of :: "string \<Rightarrow> nat \<Rightarrow> nat option" where
  "number_of [] acc = Some acc"
| "number_of (c # cs) acc =
     (case digit c of None \<Rightarrow> None | Some d \<Rightarrow> number_of cs (10 * acc + d))"

definition array_index :: "string \<Rightarrow> nat option" where
  "array_index k =
     (case k of
        [] \<Rightarrow> None
      | c # cs \<Rightarrow>
          (if c = CHR ''0'' \<and> cs \<noteq> [] then None
           else (case number_of k 0 of
                   None \<Rightarrow> None
                 | Some n \<Rightarrow> if n < 4294967295 then Some n else None)))"

definition index_key :: "string \<times> 'v \<Rightarrow> nat" where
  "index_key kv = (case array_index (fst kv) of None \<Rightarrow> 0 | Some n \<Rightarrow> n)"

definition property_order :: "(string \<times> 'v) list \<Rightarrow> (string \<times> 'v) list" where
  "property_order kvs =
     sort_key index_key (filter (\<lambda>kv. array_index (fst kv) \<noteq> None) kvs) @
     filter (\<lambda>kv. array_index (fst kv) = None) kvs"

text \<open>
  \<^verbatim>\<open>JSON.stringify\<close> followed by the parse at the other end: the properties in the order
  of enumeration, those without a JSON value left out, at every depth.
\<close>

fun stringify :: "json \<Rightarrow> json" where
  "stringify (JObj kvs) =
     JObj (property_order (filter (\<lambda>kv. snd kv \<noteq> JUndefined)
             (map (\<lambda>kv. (fst kv, stringify (snd kv))) kvs)))"
| "stringify v = v"

text \<open>
  The own enumerable properties of a value (\<^verbatim>\<open>Object.entries\<close>, object spread): those of
  an object, the characters of a string under their indices, none otherwise. Object spread
  (\<^verbatim>\<open>{ ...base, ...extra }\<close>) assigns the properties of \<open>extra\<close> in that order.
\<close>

fun decimal :: "nat \<Rightarrow> string" where
  "decimal n =
     (if n < 10 then [char_of (48 + n)] else decimal (n div 10) @ [char_of (48 + n mod 10)])"

definition own_properties :: "json \<Rightarrow> (string \<times> json) list" where
  "own_properties j =
     (case j of
        JObj kvs \<Rightarrow> property_order kvs
      | JStr s \<Rightarrow> map (\<lambda>(i, c). (decimal i, JStr [c])) (enumerate 0 s)
      | _ \<Rightarrow> [])"

definition spread :: "(string \<times> json) list \<Rightarrow> json \<Rightarrow> (string \<times> json) list" where
  "spread base extra = foldl (\<lambda>acc (k, v). assign k v acc) base (own_properties extra)"

section \<open>Server: remote operations and the route dispatcher\<close>

text \<open>
  The remote assistant service is opaque: each SDK call is a function of the time of the
  request (the number of requests made before it) and of its arguments, returning the
  thrown error's message or the result.
\<close>

record remote =
  assistants_retrieve :: "nat \<Rightarrow> string \<Rightarrow> string + assistant"
  threads_retrieve :: "nat \<Rightarrow> string option \<Rightarrow> string + string"
  threads_create :: "nat \<Rightarrow> json \<Rightarrow> string + string"
  messages_create :: "nat \<Rightarrow> string option \<Rightarrow> json option \<Rightarrow> string + message"
  messages_list :: "nat \<Rightarrow> string option \<Rightarrow> string + message list"
  runs_create :: "nat \<Rightarrow> string option \<Rightarrow> (string \<times> json) list \<Rightarrow> string + run"
  runs_retrieve :: "nat \<Rightarrow> string option \<Rightarrow> string option \<Rightarrow> string + run"
  runs_submitToolOutputs ::
    "nat \<Rightarrow> string option \<Rightarrow> string option \<Rightarrow> (string \<times> json) list \<Rightarrow> string + unit"
  files_create :: "nat \<Rightarrow> string + string"
  files_retrieve :: "nat \<Rightarrow> string option \<Rightarrow> string + string"

record args =
  arg_assistantId :: string
  arg_fileId :: "string option"
  arg_threadId :: "string option"
  arg_runId :: "string option"
  arg_params :: json

datatype operation =
    getAssistant | getAssistantFunctions | handleCreateThread | getThread
  | handleSendMessage | handleGetMessages | handleStartRun | checkRunStatus
  | processToolActions | uploadFile | getFile

text \<open>
  The reads \<^verbatim>\<open>params.content\<close> and \<^verbatim>\<open>params.results\<close>: a property of \<^verbatim>\<open>null\<close>
  cannot be read, a value without the property gives \<^verbatim>\<open>undefined\<close>.
\<close>

definition params_content :: "json \<Rightarrow> string + json option" where
  "params_content p =
     (case p of
        JNull \<Rightarrow> Inl ''Cannot read properties of null''
      | JUndefined \<Rightarrow> Inl ''Cannot read properties of undefined''
      | JObj kvs \<Rightarrow> Inr (map_of kvs ''content'')
      | _ \<Rightarrow> Inr None)"

definition params_results :: "json \<Rightarrow> string + json option" where
  "params_results p =
     (case p of
        JNull \<Rightarrow> Inl ''Cannot read properties of null''
      | JUndefined \<Rightarrow> Inl ''Cannot read properties of undefined''
      | JObj kvs \<Rightarrow> Inr (map_of kvs ''results'')
      | _ \<Rightarrow> Inr None)"

text \<open>\<^verbatim>\<open>Object.entries\<close> throws on \<^verbatim>\<open>null\<close> and \<^verbatim>\<open>undefined\<close>.\<close>

definition entries :: "json option \<Rightarrow> string + (string \<times> json) list" where
  "entries j =
     (case j of
        None \<Rightarrow> Inl ''Cannot convert undefined or null to object''
      | Some JNull \<Rightarrow> Inl ''Cannot convert undefined or null to object''
      | Some JUndefined \<Rightarrow> Inl ''Cannot convert undefined or null to object''
      | Some v \<Rightarrow> Inr (own_properties v))"

definition lift :: "('a \<Rightarrow> payload) \<Rightarrow> string + 'a \<Rightarrow> string + payload" where
  "lift f r = (case r of Inl e \<Rightarrow> Inl e | Inr x \<Rightarrow> Inr (f x))"

text \<open>The operations of the table, each a call-through to the remote service.\<close>

definition run_operation :: "remote \<Rightarrow> nat \<Rightarrow> operation \<Rightarrow> args \<Rightarrow> string + payload" where
  "run_operation rs t op a = (case op of
      getAssistant \<Rightarrow> lift PAssistant (assistants_retrieve rs t (arg_assistantId a))
    | getAssistantFunctions \<Rightarrow>
        lift (\<lambda>x. PTools (tools x)) (assistants_retrieve rs t (arg_assistantId a))
    | getThread \<Rightarrow> lift PThread (threads_retrieve rs t (arg_threadId a))
    | handleCreateThread \<Rightarrow> lift PThread (threads_create rs t (arg_params a))
    | handleSendMessage \<Rightarrow>
        (case params_content (arg_params a) of
           Inl e \<Rightarrow> Inl e
         | Inr c \<Rightarrow> lift PMessage (messages_create rs t (arg_threadId a) c))
    | handleGetMessages \<Rightarrow> lift PMessagePage (messages_list rs t (arg_threadId a))
    | handleStartRun \<Rightarrow>
        lift PRun (runs_create rs t (arg_threadId a)
          (spread [(''assistant_id'', JStr (arg_assistantId a))] (arg_params a)))
    | checkRunStatus \<Rightarrow> lift PRun (runs_retrieve rs t (arg_threadId a) (arg_runId a))
    | processToolActions \<Rightarrow>
        (case params_results (arg_params a) of
           Inl e \<Rightarrow> Inl e
         | Inr results \<Rightarrow>
             (case entries results of
                Inl e \<Rightarrow> Inl e
              | Inr kvs \<Rightarrow>
                  lift (\<lambda>_. PSubmitted)
                    (runs_submitToolOutputs rs t (arg_threadId a) (arg_runId a) kvs)))
    | uploadFile \<Rightarrow> lift PFile (files_create rs t)
    | getFile \<Rightarrow> lift PFile (files_retrieve rs t (arg_fileId a)))"

text \<open>\<^verbatim>\<open>routeHandlers\<close>: object, then action, then method.\<close>

definition routeHandlers :: "(string \<times> (string \<times> (string \<times> operation) list) list) list" where
  "routeHandlers =
    [(''assistant'',
        [(''_'', [(''GET'', getAssistant)]),
         (''functions'', [(''GET'', getAssistantFunctions)])]),
     (''thread'',
        [(''_'', [(''POST'', handleCreateThread), (''GET'', getThread)]),
         (''messages'', [(''POST'', handleSendMessage), (''GET'', handleGetMessages)]),
         (''runs'', [(''POST'', handleStartRun)])]),
     (''run'',
        [(''_'', [(''POST'', handleStartRun)]),
         (''status'', [(''GET'', checkRunStatus)]),
         (''process-fns'', [(''POST'', processToolActions)])]),
     (''file'',
        [(''_'', [(''POST'', uploadFile), (''GET'', getFile)])])]"

definition getRouteHandler :: "string \<Rightarrow> string \<Rightarrow> string \<Rightarrow> operation option" where
  "getRouteHandler object action method =
     (case map_of routeHandlers object of
        None \<Rightarrow> None
      | Some actions \<Rightarrow>
          (case map_of actions action of
             None \<Rightarrow> None
           | Some methods \<Rightarrow> map_of methods method))"

text \<open>\<^verbatim>\<open>params[i]\<close>: \<^verbatim>\<open>undefined\<close> beyond the end of the array.\<close>

definition seg :: "string list \<Rightarrow> nat \<Rightarrow> string option" where
  "seg params i = (if i < length params then Some (params ! i) else None)"

definition orElse :: "string option \<Rightarrow> string \<Rightarrow> string" where
  "orElse x d = (case x of None \<Rightarrow> d | Some v \<Rightarrow> v)"

definition determineRouteObject :: "string list \<Rightarrow> string \<times> string" where
  "determineRouteObject params =
     (if seg params 0 = Some ''threads'' then
        (let object = (if seg params 2 = Some ''runs'' then ''run'' else ''thread'')
         in (object, orElse (seg params (if object = ''run'' then 4 else 2)) ''_''))
      else if seg params 0 = Some ''files'' then (''file'', orElse (seg params 1) ''_'')
      else (''assistant'', orElse (seg params 0) ''_''))"

text \<open>
  \<^verbatim>\<open>extractArgs\<close>. A POST body that does not parse makes \<^verbatim>\<open>req.json()\<close> throw; a GET
  takes the query parameters, which the client never sends.
\<close>

definition extractArgs :: "request \<Rightarrow> string \<Rightarrow> string + args" where
  "extractArgs req object =
     (let params = req_params req;
          base = \<lparr> arg_assistantId = req_assistantId req,
                   arg_fileId = (if object = ''file'' then seg params 1 else None),
                   arg_threadId =
                     (if object = ''thread'' \<or> object = ''run'' then seg params 1 else None),
                   arg_runId = (if object = ''run'' then seg params 3 else None),
                   arg_params = JObj [] \<rparr>
      in if req_method req = ''POST'' then
           (case req_body req of
              None \<Rightarrow> Inl ''Unexpected end of JSON input''
            | Some b \<Rightarrow> Inr (base\<lparr>arg_params := b\<rparr>))
         else Inr base)"

text \<open>The handler returned by \<^verbatim>\<open>createAssistantRoutes\<close> (the debug logging left out).\<close>

definition route :: "remote \<Rightarrow> nat \<Rightarrow> request \<Rightarrow> response" where
  "route rs t req =
     (let (object, action) = determineRouteObject (req_params req)
      in case getRouteHandler object action (req_method req) of
           None \<Rightarrow> \<lparr> resp_status = 404, resp_json = PEnvelope ''Not Found'' \<rparr>
         | Some handler \<Rightarrow>
             (case extractArgs req object of
                Inl e \<Rightarrow> \<lparr> resp_status = 500, resp_json = PEnvelope e \<rparr>
              | Inr a \<Rightarrow>
                  (case run_operation rs t handler a of
                     Inl e \<Rightarrow> \<lparr> resp_status = 500, resp_json = PEnvelope e \<rparr>
                   | Inr result \<Rightarrow> \<lparr> resp_status = 200, resp_json = result \<rparr>)))"

section \<open>Client: the thread manager\<close>

text \<open>
  The manager's callbacks are the caller's code. Each call is recorded in the trace with
  the value passed; the callbacks are taken to return normally. \<^verbatim>\<open>onMessagesUpdated\<close>
  receives the very object the manager stores, so what the callback does to that object
  (the hook reverses its \<^verbatim>\<open>data\<close> array in place) is a field of the manager: the
  identity for a callback that only reads.
  An \<^verbatim>\<open>async\<close> call that is not awaited cannot throw into its caller: its error becomes
  a rejected promise that nobody holds (\<open>detach\<close>). Ids are single path segments.
  \<open>functionMap\<close> holds the own properties of \<^verbatim>\<open>this.functions\<close>, the caller's handlers; a
  handler gives \<open>None\<close> when it throws. The lookup \<^verbatim>\<open>this.functions[name]\<close> also finds
  what a plain object inherits: the members of \<^verbatim>\<open>Object.prototype\<close>, which belong to the
  JavaScript runtime and are a parameter of the environment. A member is given by what
  calling it on the receiver (known by its own properties) with one argument returns,
  \<open>None\<close> when the call throws. \<open>clock\<close> counts the requests sent so far and \<open>trace\<close>
  holds the manager's effects in order.
\<close>

datatype event =
    Fetch request
  | MessagesUpdated payload
  | RunStatusChanged "string option"
  | Initialized
  | SetTimeout nat
  | ConsoleError string
  | PollStarted
  | UnhandledRejection error

type_synonym handler = "json \<Rightarrow> string option"

type_synonym member = "(string \<Rightarrow> handler option) \<Rightarrow> json \<Rightarrow> json option"

record manager =
  thread :: "payload option"
  messages :: payload
  assistant :: "payload option"
  pollInterval :: nat
  functionMap :: "string \<Rightarrow> handler option"
  assistantId :: string
  threadId :: "string option"
  activeRunId :: "string option"
  initialized :: bool
  onMessagesUpdated :: "payload \<Rightarrow> payload"
  clock :: nat
  trace :: "event list"

record env =
  remote_service :: remote
  network :: "nat \<Rightarrow> bool"
  JSON_parse :: "string \<Rightarrow> json option"
  Object_prototype :: "string \<Rightarrow> member option"

type_synonym 'a action = "manager \<Rightarrow> (error + 'a) \<times> manager"

definition await :: "'a action \<Rightarrow> ('a \<Rightarrow> 'b action) \<Rightarrow> 'b action" where
  "await m f s = (case m s of (Inl e, s') \<Rightarrow> (Inl e, s') | (Inr x, s') \<Rightarrow> f x s')"

definition emit :: "event \<Rightarrow> manager \<Rightarrow> manager" where
  "emit e s = s\<lparr>trace := trace s @ [e]\<rparr>"

definition detach :: "'a action \<Rightarrow> manager \<Rightarrow> manager" where
  "detach m s = (case m s of (Inl e, s') \<Rightarrow> emit (UnhandledRejection e) s' | (Inr x, s') \<Rightarrow> s')"

definition truthy :: "string option \<Rightarrow> bool" where
  "truthy x = (case x of None \<Rightarrow> False | Some v \<Rightarrow> v \<noteq> [])"

text \<open>A value inside a template string: \<^verbatim>\<open>undefined\<close> prints as such.\<close>

definition tmpl :: "string option \<Rightarrow> string" where
  "tmpl x = (case x of None \<Rightarrow> ''undefined'' | Some v \<Rightarrow> v)"

text \<open>
  \<^verbatim>\<open>fetch\<close>: the request reaches the route dispatcher unless the network fails, in which
  case \<^verbatim>\<open>fetch\<close> itself rejects.
\<close>

definition fetch :: "env \<Rightarrow> request \<Rightarrow> response action" where
  "fetch ev req s =
     (let t = clock s; s' = emit (Fetch req) (s\<lparr>clock := t + 1\<rparr>)
      in if network ev t then (Inr (route (remote_service ev) t req), s')
         else (Inl (TypeError ''Failed to fetch''), s'))"

definition GET :: "manager \<Rightarrow> string list \<Rightarrow> request" where
  "GET s ps = \<lparr> req_method = ''GET'', req_assistantId = assistantId s,
               req_params = ps, req_body = None \<rparr>"

text \<open>A POST carries \<^verbatim>\<open>JSON.stringify\<close> of the value given.\<close>

definition POST :: "manager \<Rightarrow> string list \<Rightarrow> json \<Rightarrow> request" where
  "POST s ps b = \<lparr> req_method = ''POST'', req_assistantId = assistantId s,
                  req_params = ps, req_body = Some (stringify b) \<rparr>"

definition fetch_ok :: "env \<Rightarrow> request \<Rightarrow> string \<Rightarrow> payload action" where
  "fetch_ok ev req msg =
     await (fetch ev req)
       (\<lambda>r s. if \<not> ok r then (Inl (Error msg), s) else (Inr (resp_json r), s))"

definition tm_getAssistant :: "env \<Rightarrow> payload action" where
  "tm_getAssistant ev s =
     await (fetch_ok ev (GET s [''_'']) ''Failed to retrieve assistant'')
       (\<lambda>data s. (Inr data, s\<lparr>assistant := Some data\<rparr>)) s"

definition tm_getThread :: "env \<Rightarrow> payload action" where
  "tm_getThread ev s =
     (if \<not> truthy (threadId s) then (Inl (Error ''Thread ID not provided''), s)
      else await (fetch_ok ev (GET s [''threads'', tmpl (threadId s), ''_''])
                    ''Failed to retrieve thread'')
             (\<lambda>data s. (Inr data, s\<lparr>thread := Some data\<rparr>)) s)"

definition tm_getMessages :: "env \<Rightarrow> payload action" where
  "tm_getMessages ev s =
     (if \<not> truthy (threadId s) then (Inl (Error ''Thread ID not provided''), s)
      else await (fetch_ok ev (GET s [''threads'', tmpl (threadId s), ''messages''])
                    ''Failed to retrieve messages'')
             (\<lambda>data s. (Inr (onMessagesUpdated s data),
                 (emit (MessagesUpdated data) s)\<lparr>messages := onMessagesUpdated s data\<rparr>)) s)"

text \<open>Property reads on a response body; a property the object lacks is \<^verbatim>\<open>undefined\<close>.\<close>

definition status_of :: "payload \<Rightarrow> string option" where
  "status_of p = (case p of PRun r \<Rightarrow> Some (run_status r) | _ \<Rightarrow> None)"

definition id_of :: "payload \<Rightarrow> string option" where
  "id_of p = (case p of PRun r \<Rightarrow> Some (run_id r) | PThread i \<Rightarrow> Some i
              | PMessage m \<Rightarrow> Some (message_id m) | PAssistant a \<Rightarrow> Some (assistant_id a)
              | PFile i \<Rightarrow> Some i | _ \<Rightarrow> None)"

definition tool_calls_of :: "payload \<Rightarrow> tool_call list option" where
  "tool_calls_of p = (case p of PRun r \<Rightarrow> required_action r | _ \<Rightarrow> None)"

definition tools_of :: "payload option \<Rightarrow> tool list option" where
  "tools_of p = (case p of Some (PAssistant a) \<Rightarrow> Some (tools a) | _ \<Rightarrow> None)"

definition name_of :: "payload option \<Rightarrow> string" where
  "name_of p = (case p of Some (PAssistant a) \<Rightarrow>
                  (case assistant_name a of None \<Rightarrow> ''null'' | Some n \<Rightarrow> n)
                | _ \<Rightarrow> ''undefined'')"

definition first_run :: "payload \<Rightarrow> payload option" where
  "first_run p = (case p of PRunPage (r # _) \<Rightarrow> Some (PRun r) | _ \<Rightarrow> None)"

definition tm_createThread :: "env \<Rightarrow> json \<Rightarrow> payload action" where
  "tm_createThread ev threadArgs s =
     (case await (fetch_ok ev (POST s [''threads'', ''_''] threadArgs) ''Failed to create thread'')
             (\<lambda>data s. (Inr data, s\<lparr>thread := Some data, threadId := id_of data\<rparr>)) s of
        (Inl e, s') \<Rightarrow> (Inl e, emit (ConsoleError ''Error creating thread:'') s')
      | (Inr x, s') \<Rightarrow> (Inr x, s'))"

text \<open>
  \<^verbatim>\<open>pollRunStatus\<close> checks the ids and calls \<^verbatim>\<open>poll()\<close> without awaiting it. The
  chain that \<^verbatim>\<open>poll\<close> starts runs on timers; here it is marked in the trace, and
  \<open>poll\<close> and \<open>poll_chain\<close> below say what it does.
\<close>

definition tm_pollRunStatus :: "unit action" where
  "tm_pollRunStatus s =
     (if \<not> truthy (threadId s) \<or> \<not> truthy (activeRunId s)
      then (Inl (Error ''Thread ID or Run ID not provided''), s)
      else (Inr (), emit PollStarted s))"

definition tm_startRun :: "env \<Rightarrow> json \<Rightarrow> payload action" where
  "tm_startRun ev runArgs s =
     (if \<not> truthy (threadId s) then (Inl (Error ''Thread ID not provided''), s)
      else await (fetch_ok ev
                    (POST s [''threads'', tmpl (threadId s), ''runs'', ''_'']
                       (JObj (spread [(''assistant_id'', JStr (assistantId s))] runArgs)))
                    ''Failed to start run'')
             (\<lambda>run s. (Inr run,
                 detach tm_pollRunStatus
                   ((emit (RunStatusChanged (status_of run)) s)\<lparr>activeRunId := id_of run\<rparr>))) s)"

definition tm_sendMessage :: "env \<Rightarrow> string \<Rightarrow> string option \<Rightarrow> payload action" where
  "tm_sendMessage ev content runInstructions s =
     (if \<not> truthy (threadId s) then (Inl (Error ''Thread ID not provided''), s)
      else await (fetch_ok ev
                    (POST s [''threads'', tmpl (threadId s), ''messages'']
                       (JObj [(''content'', JStr content),
                              (''runInstructions'',
                               case runInstructions of None \<Rightarrow> JUndefined
                               | Some r \<Rightarrow> JStr r)]))
                    ''Failed to send message'')
             (\<lambda>message.
                await (tm_getMessages ev)
                  (\<lambda>_. await (tm_startRun ev (JObj [])) (\<lambda>_ s. (Inr message, s)))) s)"

definition array_includes :: "string list \<Rightarrow> string option \<Rightarrow> bool" where
  "array_includes xs x = (case x of None \<Rightarrow> False | Some v \<Rightarrow> v \<in> set xs)"

definition inactive :: "string list" where
  "inactive = [''completed'', ''failed'', ''cancelled'', ''expired'', ''cancelling'']"

definition tm_checkForActiveRun :: "env \<Rightarrow> payload option action" where
  "tm_checkForActiveRun ev s =
     (if \<not> truthy (threadId s) then (Inl (Error ''Thread ID not provided''), s)
      else await (fetch_ok ev (GET s [''threads'', tmpl (threadId s), ''runs'', ''latest''])
                    ''Failed to retrieve run'')
             (\<lambda>runs s.
                (case first_run runs of
                   None \<Rightarrow> (Inr None, s)
                 | Some run \<Rightarrow>
                     (if \<not> array_includes inactive (status_of run) then
                        (Inr (Some run),
                         detach tm_pollRunStatus
                           (emit (RunStatusChanged (status_of run)) (s\<lparr>activeRunId := id_of run\<rparr>)))
                      else (Inr (Some run), s)))) s)"

text \<open>
  \<^verbatim>\<open>processToolActions\<close>. The callee \<^verbatim>\<open>this.functions[name]\<close> is the caller's handler
  of that name or else the inherited member; it is called on the parsed arguments, and the
  awaited value is stored under the call id. A name that resolves to nothing, arguments
  that do not parse and a call that throws all land in the inner \<^verbatim>\<open>catch\<close>.
\<close>

definition invoke :: "env \<Rightarrow> manager \<Rightarrow> tool_call \<Rightarrow> json option" where
  "invoke ev s a =
     (case JSON_parse ev (call_function_arguments a) of
        None \<Rightarrow> None
      | Some j \<Rightarrow>
          (case functionMap s (call_function_name a) of
             Some h \<Rightarrow> map_option JStr (h j)
           | None \<Rightarrow>
               (case Object_prototype ev (call_function_name a) of
                  Some m \<Rightarrow> m (functionMap s) j
                | None \<Rightarrow> None)))"

fun collect ::
  "env \<Rightarrow> tool_call list \<Rightarrow> (string \<times> json) list \<Rightarrow> manager \<Rightarrow> (string \<times> json) list \<times> manager"
where
  "collect ev [] results s = (results, s)"
| "collect ev (a # actions) results s =
     (if call_type a = ''function'' then
        (case invoke ev s a of
           Some fnResponse \<Rightarrow> collect ev actions (assign (call_id a) fnResponse results) s
         | None \<Rightarrow>
             collect ev actions (assign (call_id a) JNull results)
               (emit (ConsoleError ''local function invocation error'') s))
      else collect ev actions results s)"

definition tm_processToolActions :: "env \<Rightarrow> payload \<Rightarrow> payload option action" where
  "tm_processToolActions ev run s =
     (case (case tool_calls_of run of
              None \<Rightarrow> (Inl (TypeError ''Cannot read properties of undefined''), s)
            | Some actions \<Rightarrow>
                (let (results, s1) = collect ev actions [] s
                 in await (fetch_ok ev
                      (POST s1 [''threads'', tmpl (threadId s1), ''runs'', tmpl (id_of run),
                                ''process-fns'']
                         (JObj [(''results'', JObj results)]))
                      ''Failed to start run'')
                    (\<lambda>j s. (Inr (Some j), s)) s1)) of
        (Inl e, s') \<Rightarrow> (Inr None, emit (ConsoleError ''error processing thread actions'') s')
      | (Inr x, s') \<Rightarrow> (Inr x, s'))"

text \<open>The test \<^verbatim>\<open>status.match(/failed|cancelled|expired/)\<close>: a search anywhere in the string.\<close>

fun starts_with :: "string \<Rightarrow> string \<Rightarrow> bool" where
  "starts_with [] s = True"
| "starts_with (p # ps) [] = False"
| "starts_with (p # ps) (c # cs) = (p = c \<and> starts_with ps cs)"

fun search :: "string \<Rightarrow> string \<Rightarrow> bool" where
  "search p [] = starts_with p []"
| "search p (c # cs) = (starts_with p (c # cs) \<or> search p cs)"

definition terminal :: "string \<Rightarrow> bool" where
  "terminal status =
     (status = ''completed'' \<or>
      search ''failed'' status \<or> search ''cancelled'' status \<or> search ''expired'' status)"

datatype poll_result = Stopped | Rescheduled

text \<open>One run of the closure \<^verbatim>\<open>poll\<close> inside \<^verbatim>\<open>pollRunStatus\<close>.\<close>

definition poll :: "env \<Rightarrow> poll_result action" where
  "poll ev s =
     await (fetch_ok ev
              (GET s [''threads'', tmpl (threadId s), ''runs'', tmpl (activeRunId s), ''status''])
              ''Failed to check run status'')
       (\<lambda>run s.
          (let s1 = emit (RunStatusChanged (status_of run)) s
           in case status_of run of
                None \<Rightarrow> (Inl (TypeError ''Cannot read properties of undefined''), s1)
              | Some status \<Rightarrow>
                  (if terminal status then (Inr Stopped, detach (tm_getMessages ev) s1)
                   else
                     await (if status = ''requires_action''
                            then tm_processToolActions ev run
                            else (\<lambda>s. (Inr None, s)))
                       (\<lambda>_ s. (Inr Rescheduled, emit (SetTimeout (pollInterval s)) s)) s1))) s"

text \<open>
  The poll chain: \<^verbatim>\<open>poll\<close> runs again each time the timer it set fires. The chain may
  go on for ever, so it is run for a given number of timer firings; \<open>Polling\<close> says
  that a timer is still pending when they are used up.
\<close>

datatype chain_result = Finished | Died error | Polling

fun poll_chain :: "nat \<Rightarrow> env \<Rightarrow> manager \<Rightarrow> chain_result \<times> manager" where
  "poll_chain 0 ev s = (Polling, s)"
| "poll_chain (Suc n) ev s =
     (case poll ev s of
        (Inl e, s') \<Rightarrow> (Died e, emit (UnhandledRejection e) s')
      | (Inr Stopped, s') \<Rightarrow> (Finished, s')
      | (Inr Rescheduled, s') \<Rightarrow> poll_chain n ev s')"

text \<open>
  \<^verbatim>\<open>checkAssistantFunctions\<close>: the \<^verbatim>\<open>forEach\<close> stops at the first throw. The test
  \<^verbatim>\<open>!this.functions?.[name]\<close> passes for a handler of the caller and for an inherited
  member alike.
\<close>

definition resolves :: "env \<Rightarrow> manager \<Rightarrow> string \<Rightarrow> bool" where
  "resolves ev s name = (functionMap s name \<noteq> None \<or> Object_prototype ev name \<noteq> None)"

definition missing_handler :: "string \<Rightarrow> string \<Rightarrow> string" where
  "missing_handler assistantName functionName =
     ''The assistant '' @ assistantName @ '' has the Function '' @ functionName @
     '' registered, but no handler was provided.''"

fun check_tools :: "env \<Rightarrow> manager \<Rightarrow> tool list \<Rightarrow> error option" where
  "check_tools ev s [] = None"
| "check_tools ev s (t # ts) =
     (if tool_type t = ''function'' \<and> \<not> resolves ev s (tool_function_name t)
      then Some (Error (missing_handler (name_of (assistant s)) (tool_function_name t)))
      else check_tools ev s ts)"

definition tm_checkAssistantFunctions :: "env \<Rightarrow> unit action" where
  "tm_checkAssistantFunctions ev s =
     (case tools_of (assistant s) of
        None \<Rightarrow> (Inr (), s)
      | Some ts \<Rightarrow>
          (case check_tools ev s ts of
             Some e \<Rightarrow> (Inl e, emit (ConsoleError ''error getting assistant'') s)
           | None \<Rightarrow> (Inr (), s)))"

definition tm_init :: "env \<Rightarrow> unit action" where
  "tm_init ev =
     await (tm_getAssistant ev) (\<lambda>_.
     await (tm_checkAssistantFunctions ev) (\<lambda>_.
     await (\<lambda>s. if truthy (threadId s)
                then await (tm_getThread ev) (\<lambda>_.
                     await (tm_getMessages ev) (\<lambda>_.
                     await (tm_checkForActiveRun ev) (\<lambda>_ s. (Inr (), s)))) s
                else (Inr (), s)) (\<lambda>_ s.
     (Inr (), emit Initialized (s\<lparr>initialized := True\<rparr>)))))"

record thread_args =
  a_assistantId :: string
  a_threadId :: "string option"
  a_functions :: "(string \<Rightarrow> handler option) option"
  a_onMessagesUpdated :: "(payload \<Rightarrow> payload) option"

text \<open>
  The constructor sets the fields and calls \<^verbatim>\<open>this.init()\<close> without awaiting it. Its
  result is the manager as initialisation leaves it, once the event loop has run it. The
  default \<^verbatim>\<open>functions = {}\<close> has no property of its own.
\<close>

definition fresh :: "thread_args \<Rightarrow> manager" where
  "fresh a =
     \<lparr> thread = None, messages = PArray [], assistant = None, pollInterval = 2000,
       functionMap = (case a_functions a of None \<Rightarrow> Map.empty | Some f \<Rightarrow> f),
       assistantId = a_assistantId a, threadId = a_threadId a, activeRunId = None,
       initialized = False,
       onMessagesUpdated = (case a_onMessagesUpdated a of None \<Rightarrow> (\<lambda>p. p) | Some f \<Rightarrow> f),
       clock = 0, trace = [] \<rparr>"

definition constructor :: "env \<Rightarrow> thread_args \<Rightarrow> error + manager" where
  "constructor ev a = Inr (detach (tm_init ev) (fresh a))"

section \<open>Client: the binding hook\<close>

text \<open>
  \<^verbatim>\<open>useThread\<close> keeps six pieces of React state. Every call of a state setter is logged:
  a setter called with a fresh array or object is a state update and a re-render.
\<close>

datatype setter =
    SetMessages "message list"
  | SetRunStatus "string option"
  | SetThread "payload option"
  | SetError error
  | SetLoading bool
  | SetInitializing bool

record hook_state =
  h_messages :: "message list"
  h_runStatus :: "string option"
  h_thread :: "payload option"
  h_error :: "error option"
  h_loading :: bool
  h_initializing :: bool
  h_log :: "setter list"

definition initial_state :: hook_state where
  "initial_state =
     \<lparr> h_messages = [], h_runStatus = None, h_thread = None, h_error = None,
       h_loading = False, h_initializing = True, h_log = [] \<rparr>"

definition setMessages :: "message list \<Rightarrow> hook_state \<Rightarrow> hook_state" where
  "setMessages v hs = hs\<lparr>h_messages := v, h_log := h_log hs @ [SetMessages v]\<rparr>"

definition setRunStatus :: "string option \<Rightarrow> hook_state \<Rightarrow> hook_state" where
  "setRunStatus v hs = hs\<lparr>h_runStatus := v, h_log := h_log hs @ [SetRunStatus v]\<rparr>"

definition setThread :: "payload option \<Rightarrow> hook_state \<Rightarrow> hook_state" where
  "setThread v hs = hs\<lparr>h_thread := v, h_log := h_log hs @ [SetThread v]\<rparr>"

definition setError :: "error \<Rightarrow> hook_state \<Rightarrow> hook_state" where
  "setError v hs = hs\<lparr>h_error := Some v, h_log := h_log hs @ [SetError v]\<rparr>"

definition setLoading :: "bool \<Rightarrow> hook_state \<Rightarrow> hook_state" where
  "setLoading v hs = hs\<lparr>h_loading := v, h_log := h_log hs @ [SetLoading v]\<rparr>"

definition setInitializing :: "bool \<Rightarrow> hook_state \<Rightarrow> hook_state" where
  "setInitializing v hs = hs\<lparr>h_initializing := v, h_log := h_log hs @ [SetInitializing v]\<rparr>"

definition data_of :: "payload \<Rightarrow> message list option" where
  "data_of p = (case p of PMessagePage ms \<Rightarrow> Some ms | _ \<Rightarrow> None)"

text \<open>
  The callbacks handed to \<^verbatim>\<open>new ThreadManager\<close>. They are closures of the render that
  creates the manager: \<open>snap\<close> is the state as that render saw it, \<open>hs\<close> the state when
  the callback runs. \<^verbatim>\<open>equals\<close> is deep equality; \<^verbatim>\<open>data.reverse()\<close> reverses the
  delivered array in place and returns it, so the callback also hands back the delivered
  object as it leaves it.
\<close>

definition hook_onMessagesUpdated ::
  "hook_state \<Rightarrow> payload \<Rightarrow> hook_state \<Rightarrow> error + payload \<times> hook_state" where
  "hook_onMessagesUpdated snap p hs =
     (case data_of p of
        None \<Rightarrow> Inl (TypeError ''Cannot read properties of undefined'')
      | Some d \<Rightarrow>
          (if h_messages snap \<noteq> d then Inr (PMessagePage (rev d), setMessages (rev d) hs)
           else Inr (p, hs)))"

definition hook_onInitialized :: "hook_state \<Rightarrow> hook_state" where
  "hook_onInitialized hs = setInitializing False hs"

definition hook_onRunStatusChanged :: "hook_state \<Rightarrow> string option \<Rightarrow> hook_state \<Rightarrow> hook_state" where
  "hook_onRunStatusChanged snap status hs =
     (let hs1 = (if array_includes [''completed'', ''failed'', ''cancelled'', ''expired''] status
                 then setLoading False hs else hs);
          hs2 = (if array_includes [''in_progress'', ''queued'', ''requires_action''] status
                 then setLoading True hs1 else hs1)
      in if h_runStatus snap \<noteq> status then setRunStatus status hs2 else hs2)"

text \<open>
  A mounted hook: its state and the ref to the manager. The manager is created by the
  first render only (\<^verbatim>\<open>if (!threadManager)\<close>), so the ref is modelled by the snapshot
  that the manager's callbacks closed over, and later renders leave it alone.
\<close>

record hook =
  h_state :: hook_state
  h_ref :: "hook_state option"

definition mount :: hook where
  "mount = \<lparr> h_state = initial_state, h_ref = None \<rparr>"

definition render :: "hook \<Rightarrow> hook" where
  "render h = (case h_ref h of None \<Rightarrow> h\<lparr>h_ref := Some (h_state h)\<rparr> | Some _ \<Rightarrow> h)"

text \<open>The manager delivers a message list; a state update renders the hook again.\<close>

definition deliver_messages :: "payload \<Rightarrow> hook \<Rightarrow> hook" where
  "deliver_messages p h =
     (case h_ref h of
        None \<Rightarrow> h
      | Some snap \<Rightarrow>
          (case hook_onMessagesUpdated snap p (h_state h) of
             Inl e \<Rightarrow> h
           | Inr (p', hs') \<Rightarrow> render (h\<lparr>h_state := hs'\<rparr>)))"

text \<open>What the hook's callback does to the object shared with the manager.\<close>

definition hook_effect :: "hook_state \<Rightarrow> payload \<Rightarrow> payload" where
  "hook_effect snap p =
     (case hook_onMessagesUpdated snap p snap of Inl e \<Rightarrow> p | Inr (p', hs') \<Rightarrow> p')"

definition run_instructions :: string where
  "run_instructions = ''The user is a 4 year old girl named Sophia...''"

text \<open>
  While the manager works it calls the hook's callbacks, the closures of the first render,
  and they call the state setters. \<open>replay\<close> applies the callbacks to the events the
  manager has added to its trace, in order.
\<close>

definition hook_callback :: "event \<Rightarrow> hook_state \<Rightarrow> hook_state" where
  "hook_callback e hs =
     (case e of
        MessagesUpdated p \<Rightarrow>
          (case hook_onMessagesUpdated initial_state p hs of
             Inl x \<Rightarrow> hs
           | Inr (p', hs') \<Rightarrow> hs')
      | RunStatusChanged status \<Rightarrow> hook_onRunStatusChanged initial_state status hs
      | Initialized \<Rightarrow> hook_onInitialized hs
      | _ \<Rightarrow> hs)"

definition replay :: "event list \<Rightarrow> hook_state \<Rightarrow> hook_state" where
  "replay es hs = foldl (\<lambda>hs e. hook_callback e hs) hs es"

text \<open>
  \<^verbatim>\<open>sendMessage\<close> inside \<^verbatim>\<open>handleOperation\<close>. \<open>threadManager\<close> is the value the render
  read from the ref: \<open>None\<close> in the first render.
\<close>

definition hook_sendMessage ::
  "env \<Rightarrow> string \<Rightarrow> manager option \<times> hook_state \<Rightarrow> payload option \<times> manager option \<times> hook_state"
where
  "hook_sendMessage ev content st =
     (case st of
        (None, hs) \<Rightarrow>
          (None, None,
           setError (Error ''Thread manager not initialized'') (setLoading False hs))
      | (Some threadManager, hs) \<Rightarrow>
          (case tm_sendMessage ev content (Some run_instructions) threadManager of
             (Inl e, m') \<Rightarrow>
               (None, Some m',
                setError e (setLoading False
                  (replay (drop (length (trace threadManager)) (trace m'))
                     (setLoading True hs))))
           | (Inr result, m') \<Rightarrow>
               (Some result, Some m',
                replay (drop (length (trace threadManager)) (trace m'))
                  (setLoading True hs))))"

section \<open>Requests and observations\<close>

text \<open>The requests the manager sends, by name.\<close>

definition status_request :: "manager \<Rightarrow> request" where
  "status_request s =
     GET s [''threads'', tmpl (threadId s), ''runs'', tmpl (activeRunId s), ''status'']"

definition submit_request :: "manager \<Rightarrow> string \<Rightarrow> (string \<times> json) list \<Rightarrow> request" where
  "submit_request s rid results =
     POST s [''threads'', tmpl (threadId s), ''runs'', rid, ''process-fns'']
       (JObj [(''results'', JObj results)])"

definition messages_request :: "manager \<Rightarrow> request" where
  "messages_request s = GET s [''threads'', tmpl (threadId s), ''messages'']"

definition run_request :: "manager \<Rightarrow> json \<Rightarrow> request" where
  "run_request s runArgs =
     POST s [''threads'', tmpl (threadId s), ''runs'', ''_'']
       (JObj (spread [(''assistant_id'', JStr (assistantId s))] runArgs))"

definition message_request :: "manager \<Rightarrow> string \<Rightarrow> string option \<Rightarrow> request" where
  "message_request s content runInstructions =
     POST s [''threads'', tmpl (threadId s), ''messages'']
       (JObj [(''content'', JStr content),
              (''runInstructions'',
               case runInstructions of None \<Rightarrow> JUndefined | Some r \<Rightarrow> JStr r)])"

text \<open>A request is answered when the network carries it and the response is ok.\<close>

definition answered :: "env \<Rightarrow> nat \<Rightarrow> request \<Rightarrow> bool" where
  "answered ev t req = (network ev t \<and> ok (route (remote_service ev) t req))"

definition answer :: "env \<Rightarrow> nat \<Rightarrow> request \<Rightarrow> payload" where
  "answer ev t req = resp_json (route (remote_service ev) t req)"

definition failure :: "env \<Rightarrow> nat \<Rightarrow> string \<Rightarrow> error" where
  "failure ev t msg = (if network ev t then Error msg else TypeError ''Failed to fetch'')"

text \<open>
  What the properties below read off a trace: a message refresh sends a GET of a thread's
  messages and, when that is answered, calls \<^verbatim>\<open>onMessagesUpdated\<close>; a scheduled poll is
  a \<^verbatim>\<open>setTimeout\<close>. \<open>same_chain\<close> relates two states of a manager that polls the same
  run of the same thread with the message cache untouched; \<open>uninitialised\<close> is a manager
  on which \<^verbatim>\<open>onInitialized\<close> has not been called. A message list is ascending when the
  creation times do not decrease, descending when they do not increase.
\<close>

definition is_update :: "event \<Rightarrow> bool" where
  "is_update e = (case e of MessagesUpdated p \<Rightarrow> True | _ \<Rightarrow> False)"

definition updates :: "manager \<Rightarrow> nat" where
  "updates s = length (filter is_update (trace s))"

definition is_refresh :: "event \<Rightarrow> bool" where
  "is_refresh e =
     (case e of
        Fetch q \<Rightarrow> req_method q = ''GET'' \<and>
          (case req_params q of [a, b, c] \<Rightarrow> a = ''threads'' \<and> c = ''messages'' | _ \<Rightarrow> False)
      | _ \<Rightarrow> False)"

definition is_timer :: "event \<Rightarrow> bool" where
  "is_timer e = (case e of SetTimeout d \<Rightarrow> True | _ \<Rightarrow> False)"

definition refreshes :: "manager \<Rightarrow> nat" where
  "refreshes s = length (filter is_refresh (trace s))"

definition timers :: "manager \<Rightarrow> nat" where
  "timers s = length (filter is_timer (trace s))"

definition same_chain :: "manager \<Rightarrow> manager \<Rightarrow> bool" where
  "same_chain s s' =
     (threadId s' = threadId s \<and> activeRunId s' = activeRunId s \<and>
      pollInterval s' = pollInterval s \<and> assistantId s' = assistantId s \<and>
      messages s' = messages s \<and> onMessagesUpdated s' = onMessagesUpdated s \<and>
      updates s' = updates s)"

definition uninitialised :: "manager \<Rightarrow> bool" where
  "uninitialised s = (Initialized \<notin> set (trace s) \<and> \<not> initialized s)"

definition ascending :: "message list \<Rightarrow> bool" where
  "ascending ms = sorted (map created_at ms)"

definition descending :: "message list \<Rightarrow> bool" where
  "descending ms = sorted (rev (map created_at ms))"

section \<open>Scenarios\<close>

text \<open>
  Concrete remote services, environments and managers for the examples below. The
  environments have the members of \<^verbatim>\<open>Object.prototype\<close> of a standard runtime. As a
  property key an argument is its string, and an object is \<^verbatim>\<open>[object Object]\<close> unless
  it has a \<^verbatim>\<open>toString\<close> of its own, which as parsed JSON cannot be called. Handlers
  are taken to settle, so a receiver with a handler named \<^verbatim>\<open>then\<close> is not awaited as a
  thenable. \<^verbatim>\<open>JSON.parse\<close> is given on the argument strings that occur.
\<close>

definition property_key :: "json \<Rightarrow> string option" where
  "property_key x =
     (case x of
        JNull \<Rightarrow> Some ''null''
      | JUndefined \<Rightarrow> Some ''undefined''
      | JBool b \<Rightarrow> Some (if b then ''true'' else ''false'')
      | JStr k \<Rightarrow> Some k
      | JObj kvs \<Rightarrow> (if map_of kvs ''toString'' = None then Some ''[object Object]'' else None))"

definition standard_prototype :: "string \<Rightarrow> member option" where
  "standard_prototype name =
     (if name = ''constructor'' then
        Some (\<lambda>own x. Some (case x of JNull \<Rightarrow> JObj [] | JUndefined \<Rightarrow> JObj [] | _ \<Rightarrow> x))
      else if name = ''toString'' then Some (\<lambda>own x. Some (JStr ''[object Object]''))
      else if name = ''toLocaleString'' then
        Some (\<lambda>own x. case own ''toString'' of
                         None \<Rightarrow> Some (JStr ''[object Object]'')
                       | Some h \<Rightarrow> map_option JStr (h JUndefined))
      else if name = ''valueOf'' then Some (\<lambda>own x. Some (JObj []))
      else if name = ''hasOwnProperty'' \<or> name = ''propertyIsEnumerable'' then
        Some (\<lambda>own x. map_option (\<lambda>k. JBool (own k \<noteq> None)) (property_key x))
      else if name = ''isPrototypeOf'' then Some (\<lambda>own x. Some (JBool False))
      else if name = ''__lookupGetter__'' \<or> name = ''__lookupSetter__'' then
        Some (\<lambda>own x. map_option (\<lambda>k. JUndefined) (property_key x))
      else if name = ''__defineGetter__'' \<or> name = ''__defineSetter__'' \<or> name = ''__proto__''
        then Some (\<lambda>own x. None)
      else None)"

definition parse :: "string \<Rightarrow> json option" where
  "parse a = (if a = ''{}'' then Some (JObj []) else if a = ''null'' then Some JNull else None)"

definition unavailable :: remote where
  "unavailable =
     \<lparr> assistants_retrieve = (\<lambda>t i. Inl ''unavailable''),
       threads_retrieve = (\<lambda>t i. Inl ''unavailable''),
       threads_create = (\<lambda>t b. Inl ''unavailable''),
       messages_create = (\<lambda>t i c. Inl ''unavailable''),
       messages_list = (\<lambda>t i. Inl ''unavailable''),
       runs_create = (\<lambda>t i b. Inl ''unavailable''),
       runs_retrieve = (\<lambda>t i r. Inl ''unavailable''),
       runs_submitToolOutputs = (\<lambda>t i r outs. Inl ''unavailable''),
       files_create = (\<lambda>t. Inl ''unavailable''),
       files_retrieve = (\<lambda>t i. Inl ''unavailable'') \<rparr>"

definition offline :: env where
  "offline = \<lparr> remote_service = unavailable, network = (\<lambda>t. False), JSON_parse = parse,
      Object_prototype = standard_prototype \<rparr>"

definition failing :: env where
  "failing = \<lparr> remote_service = unavailable, network = (\<lambda>t. True), JSON_parse = parse,
      Object_prototype = standard_prototype \<rparr>"

definition watching :: manager where
  "watching =
     (fresh \<lparr> a_assistantId = ''A1'', a_threadId = Some ''T1'', a_functions = None,
              a_onMessagesUpdated = None \<rparr>)\<lparr>activeRunId := Some ''R1''\<rparr>"

definition call_broken :: tool_call where
  "call_broken = \<lparr> call_id = ''call_1'', call_type = ''function'',
      call_function_name = ''broken'', call_function_arguments = ''{}'' \<rparr>"

definition call_greet :: tool_call where
  "call_greet = \<lparr> call_id = ''call_2'', call_type = ''function'',
      call_function_name = ''greet'', call_function_arguments = ''{}'' \<rparr>"

definition tool_run :: run where
  "tool_run = \<lparr> run_id = ''R1'', run_status = ''requires_action'',
      required_action = Some [call_broken, call_greet] \<rparr>"

definition tool_service :: remote where
  "tool_service = unavailable\<lparr> runs_retrieve := (\<lambda>t i r. Inr tool_run),
      runs_submitToolOutputs := (\<lambda>t i r outs. Inr ()) \<rparr>"

definition tooling :: env where
  "tooling = \<lparr> remote_service = tool_service, network = (\<lambda>t. True),
      JSON_parse = parse,
      Object_prototype = standard_prototype \<rparr>"

definition tool_manager :: manager where
  "tool_manager =
     (fresh \<lparr> a_assistantId = ''A1'', a_threadId = Some ''T1'',
              a_functions = Some [''broken'' \<mapsto> (\<lambda>j. None), ''greet'' \<mapsto> (\<lambda>j. Some ''hello'')],
              a_onMessagesUpdated = None \<rparr>)\<lparr>activeRunId := Some ''R1''\<rparr>"

definition older :: message where
  "older = \<lparr> message_id = ''M1'', message_role = ''user'', message_content = ''hi'',
             created_at = 1 \<rparr>"

definition newer :: message where
  "newer = \<lparr> message_id = ''M2'', message_role = ''assistant'', message_content = ''hello'',
             created_at = 2 \<rparr>"

definition chat_service :: remote where
  "chat_service = unavailable\<lparr> messages_list := (\<lambda>t i. Inr [newer, older]) \<rparr>"

definition chatting :: env where
  "chatting = \<lparr> remote_service = chat_service, network = (\<lambda>t. True),
      JSON_parse = parse,
      Object_prototype = standard_prototype \<rparr>"

definition plain_manager :: manager where
  "plain_manager =
     fresh \<lparr> a_assistantId = ''A1'', a_threadId = Some ''T1'', a_functions = None,
             a_onMessagesUpdated = None \<rparr>"

definition hook_manager :: manager where
  "hook_manager =
     fresh \<lparr> a_assistantId = ''A1'', a_threadId = Some ''T1'', a_functions = None,
             a_onMessagesUpdated = Some (hook_effect initial_state) \<rparr>"

definition greeting :: message where
  "greeting = \<lparr> message_id = ''M3'', message_role = ''user'', message_content = ''hello'',
                created_at = 3 \<rparr>"

definition queued_run :: run where
  "queued_run = \<lparr> run_id = ''R1'', run_status = ''queued'', required_action = None \<rparr>"

definition send_service :: remote where
  "send_service = unavailable\<lparr>
      messages_create := (\<lambda>t i c. Inr greeting),
      messages_list := (\<lambda>t i. Inr [greeting, newer, older]),
      runs_create := (\<lambda>t i b. Inr queued_run) \<rparr>"

definition sending :: env where
  "sending = \<lparr> remote_service = send_service, network = (\<lambda>t. True),
      JSON_parse = parse,
      Object_prototype = standard_prototype \<rparr>"

definition in_progress_run :: run where
  "in_progress_run = \<lparr> run_id = ''R1'', run_status = ''in_progress'', required_action = None \<rparr>"

definition completed_run :: run where
  "completed_run = \<lparr> run_id = ''R1'', run_status = ''completed'', required_action = None \<rparr>"

definition lifecycle_service :: remote where
  "lifecycle_service = unavailable\<lparr>
      runs_retrieve := (\<lambda>t i r. Inr (if t = 0 then queued_run
                                     else if t = 1 then in_progress_run else completed_run)),
      messages_list := (\<lambda>t i. Inr [newer, older]) \<rparr>"

definition running :: env where
  "running = \<lparr> remote_service = lifecycle_service, network = (\<lambda>t. True),
      JSON_parse = parse,
      Object_prototype = standard_prototype \<rparr>"

definition after_queued :: manager where
  "after_queued = watching\<lparr> clock := 1,
      trace := [Fetch (status_request watching), RunStatusChanged (Some ''queued''),
                SetTimeout 2000] \<rparr>"

definition after_in_progress :: manager where
  "after_in_progress = watching\<lparr> clock := 2,
      trace := [Fetch (status_request watching), RunStatusChanged (Some ''queued''),
                SetTimeout 2000,
                Fetch (status_request watching), RunStatusChanged (Some ''in_progress''),
                SetTimeout 2000] \<rparr>"

definition image_tool :: tool where
  "image_tool = \<lparr> tool_type = ''function'', tool_function_name = ''generate_image'' \<rparr>"

definition painter :: assistant where
  "painter = \<lparr> assistant_id = ''A1'', assistant_name = Some ''Painter'',
      tools = [\<lparr> tool_type = ''code_interpreter'', tool_function_name = '''' \<rparr>, image_tool] \<rparr>"

definition painter_service :: remote where
  "painter_service = unavailable\<lparr> assistants_retrieve := (\<lambda>t i. Inr painter) \<rparr>"

definition painting :: env where
  "painting = \<lparr> remote_service = painter_service, network = (\<lambda>t. True),
      JSON_parse = parse,
      Object_prototype = standard_prototype \<rparr>"

definition bare_args :: thread_args where
  "bare_args = \<lparr> a_assistantId = ''A1'', a_threadId = None, a_functions = Some Map.empty,
      a_onMessagesUpdated = None \<rparr>"

definition sketch_tool :: tool where
  "sketch_tool = \<lparr> tool_type = ''function'', tool_function_name = ''draw_sketch'' \<rparr>"

definition illustrator :: assistant where
  "illustrator = \<lparr> assistant_id = ''A1'', assistant_name = Some ''Illustrator'',
      tools = [sketch_tool, image_tool] \<rparr>"

definition illustrating :: env where
  "illustrating =
     \<lparr> remote_service = unavailable\<lparr> assistants_retrieve := (\<lambda>t i. Inr illustrator) \<rparr>,
       network = (\<lambda>t. True), JSON_parse = parse, Object_prototype = standard_prototype \<rparr>"

definition printer :: assistant where
  "printer = \<lparr> assistant_id = ''A1'', assistant_name = Some ''Printer'',
      tools = [\<lparr> tool_type = ''function'', tool_function_name = ''toString'' \<rparr>] \<rparr>"

definition printing :: env where
  "printing =
     \<lparr> remote_service = unavailable\<lparr> assistants_retrieve := (\<lambda>t i. Inr printer) \<rparr>,
       network = (\<lambda>t. True), JSON_parse = parse, Object_prototype = standard_prototype \<rparr>"

section \<open>How the dispatcher answers the manager's requests\<close>

lemma determine_latest:
  "determineRouteObject [''threads'', tid, ''runs'', ''latest''] = (''run'', ''_'')"
  by (simp add: determineRouteObject_def seg_def orElse_def)

lemma handler_run_get: "getRouteHandler ''run'' ''_'' ''GET'' = None"
  by (simp add: getRouteHandler_def routeHandlers_def)

lemma route_runs_latest:
  "route rs t (GET s [''threads'', tid, ''runs'', ''latest''])
   = \<lparr> resp_status = 404, resp_json = PEnvelope ''Not Found'' \<rparr>"
  by (simp add: route_def determine_latest handler_run_get GET_def)

lemma checkForActiveRun_result:
  "fst (tm_checkForActiveRun ev s) =
     Inl (if \<not> truthy (threadId s) then Error ''Thread ID not provided''
          else if network ev (clock s) then Error ''Failed to retrieve run''
          else TypeError ''Failed to fetch'')"
  by (simp add: tm_checkForActiveRun_def await_def fetch_ok_def fetch_def
      route_runs_latest ok_def Let_def)

lemma route_assistant:
  "route rs t (GET s [''_'']) =
     (case assistants_retrieve rs t (assistantId s) of
        Inl e \<Rightarrow> \<lparr> resp_status = 500, resp_json = PEnvelope e \<rparr>
      | Inr a \<Rightarrow> \<lparr> resp_status = 200, resp_json = PAssistant a \<rparr>)"
  by (simp add: route_def determineRouteObject_def seg_def orElse_def getRouteHandler_def
      routeHandlers_def GET_def extractArgs_def run_operation_def lift_def split: sum.splits)

lemma route_thread:
  "route rs t (GET s [''threads'', tid, ''_'']) =
     (case threads_retrieve rs t (Some tid) of
        Inl e \<Rightarrow> \<lparr> resp_status = 500, resp_json = PEnvelope e \<rparr>
      | Inr a \<Rightarrow> \<lparr> resp_status = 200, resp_json = PThread a \<rparr>)"
  by (simp add: route_def determineRouteObject_def seg_def orElse_def getRouteHandler_def
      routeHandlers_def GET_def extractArgs_def run_operation_def lift_def split: sum.splits)

lemma route_messages_get:
  "route rs t (GET s [''threads'', tid, ''messages'']) =
     (case messages_list rs t (Some tid) of
        Inl e \<Rightarrow> \<lparr> resp_status = 500, resp_json = PEnvelope e \<rparr>
      | Inr a \<Rightarrow> \<lparr> resp_status = 200, resp_json = PMessagePage a \<rparr>)"
  by (simp add: route_def determineRouteObject_def seg_def orElse_def getRouteHandler_def
      routeHandlers_def GET_def extractArgs_def run_operation_def lift_def split: sum.splits)

lemma route_messages_post:
  "route rs t (POST s [''threads'', tid, ''messages''] b) =
     (case params_content (stringify b) of
        Inl e \<Rightarrow> \<lparr> resp_status = 500, resp_json = PEnvelope e \<rparr>
      | Inr c \<Rightarrow>
          (case messages_create rs t (Some tid) c of
             Inl e \<Rightarrow> \<lparr> resp_status = 500, resp_json = PEnvelope e \<rparr>
           | Inr a \<Rightarrow> \<lparr> resp_status = 200, resp_json = PMessage a \<rparr>))"
  by (simp add: route_def determineRouteObject_def seg_def orElse_def getRouteHandler_def
      routeHandlers_def POST_def extractArgs_def run_operation_def lift_def split: sum.splits)

lemma route_runs_post:
  "route rs t (POST s [''threads'', tid, ''runs'', ''_''] b) =
     (case runs_create rs t (Some tid)
             (spread [(''assistant_id'', JStr (assistantId s))] (stringify b)) of
        Inl e \<Rightarrow> \<lparr> resp_status = 500, resp_json = PEnvelope e \<rparr>
      | Inr a \<Rightarrow> \<lparr> resp_status = 200, resp_json = PRun a \<rparr>)"
  by (simp add: route_def determineRouteObject_def seg_def orElse_def getRouteHandler_def
      routeHandlers_def POST_def extractArgs_def run_operation_def lift_def split: sum.splits)

lemma route_status:
  "route rs t (GET s [''threads'', tid, ''runs'', rid, ''status'']) =
     (case runs_retrieve rs t (Some tid) (Some rid) of
        Inl e \<Rightarrow> \<lparr> resp_status = 500, resp_json = PEnvelope e \<rparr>
      | Inr a \<Rightarrow> \<lparr> resp_status = 200, resp_json = PRun a \<rparr>)"
  by (simp add: route_def determineRouteObject_def seg_def orElse_def getRouteHandler_def
      routeHandlers_def GET_def extractArgs_def run_operation_def lift_def split: sum.splits)

lemma array_index_names [simp]:
  "array_index ''results'' = None" "array_index ''content'' = None"
  "array_index ''runInstructions'' = None" "array_index ''assistant_id'' = None"
  by (simp_all add: array_index_def digit_def)

lemma stringify_results:
  "stringify (JObj [(''results'', JObj results)]) = JObj [(''results'', stringify (JObj results))]"
  by (simp add: property_order_def)

lemma stringify_message:
  "stringify (JObj [(''content'', JStr content),
      (''runInstructions'', case runInstructions of None \<Rightarrow> JUndefined | Some r \<Rightarrow> JStr r)]) =
   JObj ((''content'', JStr content) #
      (case runInstructions of None \<Rightarrow> [] | Some r \<Rightarrow> [(''runInstructions'', JStr r)]))"
  by (simp add: property_order_def split: option.splits)

lemma stringify_run:
  "stringify (JObj (spread [(''assistant_id'', JStr a)] (JObj []))) = JObj [(''assistant_id'', JStr a)]"
  by (simp add: spread_def own_properties_def property_order_def)

lemma spread_run:
  "spread [(''assistant_id'', JStr a)] (JObj [(''assistant_id'', JStr a)]) = [(''assistant_id'', JStr a)]"
  by (simp add: spread_def own_properties_def property_order_def)

lemma route_process:
  "route rs t (POST s [''threads'', tid, ''runs'', rid, ''process-fns''] (JObj [(''results'', JObj results)])) =
     (case runs_submitToolOutputs rs t (Some tid) (Some rid)
             (own_properties (stringify (JObj results))) of
        Inl e \<Rightarrow> \<lparr> resp_status = 500, resp_json = PEnvelope e \<rparr>
      | Inr a \<Rightarrow> \<lparr> resp_status = 200, resp_json = PSubmitted \<rparr>)"
proof -
  obtain kvs where k: "stringify (JObj results) = JObj kvs"
    by simp
  show ?thesis
    by (simp add: route_def determineRouteObject_def seg_def orElse_def getRouteHandler_def
        routeHandlers_def POST_def extractArgs_def run_operation_def lift_def
        stringify_results params_results_def entries_def k del: stringify.simps
        split: sum.splits)
qed

section \<open>The route of the initialisation-time check\<close>

text \<open>
  Claim C1. The manager's \<^verbatim>\<open>checkForActiveRun\<close> sends GET
  \<^verbatim>\<open>threads/<threadId>/runs/latest\<close> and expects the thread's run list. The dispatcher
  sees a path of the \<open>run\<close> family with no fifth segment, takes the action \<open>_\<close>, and
  the table has only POST under \<open>run\<close>, \<open>_\<close>: whatever the thread id, the answer is
  404 and no operation is invoked, so the check throws for every manager.
\<close>

theorem runs_latest_is_not_found:
  "determineRouteObject [''threads'', tid, ''runs'', ''latest''] = (''run'', ''_'') \<and>
   getRouteHandler ''run'' ''_'' ''GET'' = None \<and>
   route rs t (GET s [''threads'', tid, ''runs'', ''latest''])
     = \<lparr> resp_status = 404, resp_json = PEnvelope ''Not Found'' \<rparr> \<and>
   fst (tm_checkForActiveRun ev s) =
     Inl (if \<not> truthy (threadId s) then Error ''Thread ID not provided''
          else if network ev (clock s) then Error ''Failed to retrieve run''
          else TypeError ''Failed to fetch'')"
  by (simp only: determine_latest handler_run_get route_runs_latest checkForActiveRun_result
      simp_thms)

section \<open>A failed status fetch\<close>

lemma poll_status_failure:
  assumes "network ev (clock s) \<longrightarrow> \<not> ok (route (remote_service ev) (clock s) (status_request s))"
  shows "poll ev s =
     (Inl (if network ev (clock s) then Error ''Failed to check run status''
           else TypeError ''Failed to fetch''),
      emit (Fetch (status_request s)) (s\<lparr>clock := clock s + 1\<rparr>))"
  using assms
  by (simp add: poll_def await_def fetch_ok_def fetch_def status_request_def Let_def)

text \<open>
  Claim C2 says that a failed status fetch in the poll loop is logged and swallowed and
  that another poll is scheduled. The closure \<^verbatim>\<open>poll\<close> has no \<^verbatim>\<open>try\<close>: with the
  network down, or with an answer that is not ok, the cycle's trace holds the request and
  nothing else (no \<^verbatim>\<open>console.error\<close>, no timer), and the chain ends in a rejected
  promise that nobody handles.
\<close>

theorem failed_status_fetch_counterexample:
  "poll offline watching =
     (Inl (TypeError ''Failed to fetch''),
      watching\<lparr>clock := 1, trace := [Fetch (status_request watching)]\<rparr>) \<and>
   poll failing watching =
     (Inl (Error ''Failed to check run status''),
      watching\<lparr>clock := 1, trace := [Fetch (status_request watching)]\<rparr>) \<and>
   poll_chain 3 failing watching =
     (Died (Error ''Failed to check run status''),
      watching\<lparr>clock := 1, trace := [Fetch (status_request watching),
          UnhandledRejection (Error ''Failed to check run status'')]\<rparr>)"
proof -
  have h: "network failing (clock watching) \<longrightarrow>
      \<not> ok (route (remote_service failing) (clock watching) (status_request watching))"
    by (simp add: failing_def watching_def fresh_def status_request_def tmpl_def route_status
        unavailable_def ok_def)
  have h': "network offline (clock watching) \<longrightarrow>
      \<not> ok (route (remote_service offline) (clock watching) (status_request watching))"
    by (simp add: offline_def)
  have c: "clock watching = 0" "trace watching = []" by (simp_all add: watching_def fresh_def)
  show ?thesis
    using poll_status_failure [OF h] poll_status_failure [OF h']
    by (simp add: numeral_3_eq_3 emit_def c failing_def offline_def)
qed

text \<open>
  Claim C2, amended: for every poll cycle in which the status fetch fails (the network
  fails, or the response is not ok), \<^verbatim>\<open>poll\<close> throws, nothing is logged, no further
  poll is scheduled, and the poll chain ends there, its error left unhandled.
\<close>

theorem failed_status_fetch_ends_poll_chain:
  assumes "network ev (clock s) \<longrightarrow> \<not> ok (route (remote_service ev) (clock s) (status_request s))"
  shows "\<exists>e. fst (poll ev s) = Inl e \<and>
             trace (snd (poll ev s)) = trace s @ [Fetch (status_request s)] \<and>
             fst (poll_chain (Suc n) ev s) = Died e \<and>
             trace (snd (poll_chain (Suc n) ev s)) =
               trace s @ [Fetch (status_request s), UnhandledRejection e]"
  by (simp add: poll_status_failure [OF assms] emit_def)

theorem failed_status_fetch_ends_poll_chain_witness:
  "fst (poll failing watching) = Inl (Error ''Failed to check run status'') \<and>
   fst (poll_chain 3 failing watching) = Died (Error ''Failed to check run status'')"
proof -
  have h: "network failing (clock watching) \<longrightarrow>
      \<not> ok (route (remote_service failing) (clock watching) (status_request watching))"
    by (simp add: failing_def watching_def fresh_def status_request_def tmpl_def route_status
        unavailable_def ok_def)
  have p: "poll failing watching =
     (Inl (Error ''Failed to check run status''),
      emit (Fetch (status_request watching)) (watching\<lparr>clock := clock watching + 1\<rparr>))"
    using poll_status_failure [OF h] by (simp add: failing_def)
  from failed_status_fetch_ends_poll_chain [OF h, of 2] p show ?thesis
    by (simp add: numeral_3_eq_3)
qed

section \<open>Tool calls\<close>

lemma not_terminal_requires_action: "\<not> terminal ''requires_action''"
  by (simp add: terminal_def)

lemma poll_status_ok:
  assumes "network ev (clock s)"
    and "runs_retrieve (remote_service ev) (clock s) (Some (tmpl (threadId s)))
           (Some (tmpl (activeRunId s))) = Inr r"
  shows "poll ev s =
     (let s1 = emit (RunStatusChanged (Some (run_status r)))
                 (emit (Fetch (status_request s)) (s\<lparr>clock := clock s + 1\<rparr>))
      in if terminal (run_status r) then (Inr Stopped, detach (tm_getMessages ev) s1)
         else await (if run_status r = ''requires_action''
                     then tm_processToolActions ev (PRun r)
                     else (\<lambda>s. (Inr None, s)))
                (\<lambda>_ s. (Inr Rescheduled, emit (SetTimeout (pollInterval s)) s)) s1)"
  using assms
  by (simp add: poll_def await_def fetch_ok_def fetch_def status_request_def Let_def
      route_status ok_def status_of_def)

lemma processToolActions_submits:
  assumes "required_action r = Some actions"
    and "collect ev actions [] s = (results, s1)"
  shows "tm_processToolActions ev (PRun r) s =
     (if network ev (clock s1) \<and>
         ok (route (remote_service ev) (clock s1) (submit_request s1 (run_id r) results))
      then (Inr (Some (resp_json (route (remote_service ev) (clock s1)
                     (submit_request s1 (run_id r) results)))),
            emit (Fetch (submit_request s1 (run_id r) results)) (s1\<lparr>clock := clock s1 + 1\<rparr>))
      else (Inr None,
            emit (ConsoleError ''error processing thread actions'')
              (emit (Fetch (submit_request s1 (run_id r) results)) (s1\<lparr>clock := clock s1 + 1\<rparr>))))"
  using assms
  by (simp add: tm_processToolActions_def tool_calls_of_def await_def fetch_ok_def fetch_def
      submit_request_def id_of_def tmpl_def Let_def)

lemma invoke_emit [simp]: "invoke ev (emit e s) a = invoke ev s a"
  by (simp add: invoke_def emit_def cong: option.case_cong)

lemma invoke_trace [simp]: "invoke ev (s\<lparr>trace := t\<rparr>) a = invoke ev s a"
  by (simp add: invoke_def cong: option.case_cong)

lemma invoke_clock [simp]: "invoke ev (s\<lparr>clock := t\<rparr>) a = invoke ev s a"
  by (simp add: invoke_def cong: option.case_cong)

lemma collect_two:
  assumes "call_type a = ''function''" "call_type b = ''function''" "call_id a \<noteq> call_id b"
  shows "collect ev [a, b] [] s =
     ([(call_id a, case invoke ev s a of None \<Rightarrow> JNull | Some v \<Rightarrow> v),
       (call_id b, case invoke ev s b of None \<Rightarrow> JNull | Some v \<Rightarrow> v)],
      s\<lparr>trace := trace s @
          (case invoke ev s a of None \<Rightarrow> [ConsoleError ''local function invocation error'']
           | Some v \<Rightarrow> []) @
          (case invoke ev s b of None \<Rightarrow> [ConsoleError ''local function invocation error'']
           | Some v \<Rightarrow> [])\<rparr>)"
  using assms by (simp add: emit_def split: option.splits)

text \<open>
  Claim C3. A poll cycle reads the run in \<open>requires_action\<close> with two function-type
  tool calls of different ids; the invocation of one throws and that of the other returns
  \<open>out\<close>, in either order. Then one request is sent to \<^verbatim>\<open>process-fns\<close>, with the
  results \<open>null\<close> for the call that threw and \<open>out\<close> for the other under their call ids, in the
  order of the calls, and the cycle ends by
  setting the timer for the next poll, whether the submission succeeds or not (a failed
  one is logged).
\<close>

theorem two_tool_calls_one_submission:
  assumes net: "network ev (clock s)"
    and run: "runs_retrieve (remote_service ev) (clock s) (Some (tmpl (threadId s)))
           (Some (tmpl (activeRunId s))) = Inr r"
    and status: "run_status r = ''requires_action''"
    and calls: "required_action r = Some [a, b]"
    and types: "call_type a = ''function''" "call_type b = ''function''"
    and ids: "call_id a \<noteq> call_id b"
    and outcome:
      "invoke ev s a = None \<and> invoke ev s b = Some (JStr out) \<and>
         results = [(call_id a, JNull), (call_id b, JStr out)] \<or>
       invoke ev s a = Some (JStr out) \<and> invoke ev s b = None \<and>
         results = [(call_id a, JStr out), (call_id b, JNull)]"
  shows "fst (poll ev s) = Inr Rescheduled \<and>
    trace (snd (poll ev s)) =
      trace s @
      [Fetch (status_request s),
       RunStatusChanged (Some ''requires_action''),
       ConsoleError ''local function invocation error'',
       Fetch (submit_request s (run_id r) results)] @
      (if network ev (clock s + 1) \<and>
          ok (route (remote_service ev) (clock s + 1) (submit_request s (run_id r) results))
       then [] else [ConsoleError ''error processing thread actions'']) @
      [SetTimeout (pollInterval s)]"
proof -
  let ?s1 = "emit (RunStatusChanged (Some (run_status r)))
               (emit (Fetch (status_request s)) (s\<lparr>clock := clock s + 1\<rparr>))"
  let ?s2 = "?s1\<lparr>trace := trace ?s1 @ [ConsoleError ''local function invocation error'']\<rparr>"
  have c: "collect ev [a, b] [] ?s1 = (results, ?s2)"
    using collect_two [OF types ids, of ev ?s1] outcome by auto
  have sub: "submit_request ?s2 (run_id r) results = submit_request s (run_id r) results"
    by (simp add: submit_request_def POST_def emit_def)
  have clk: "clock ?s2 = clock s + 1"
    by (simp add: emit_def)
  have p: "tm_processToolActions ev (PRun r) ?s1 =
     (if network ev (clock ?s2) \<and>
         ok (route (remote_service ev) (clock ?s2) (submit_request ?s2 (run_id r) results))
      then (Inr (Some (resp_json (route (remote_service ev) (clock ?s2)
                     (submit_request ?s2 (run_id r) results)))),
            emit (Fetch (submit_request ?s2 (run_id r) results)) (?s2\<lparr>clock := clock ?s2 + 1\<rparr>))
      else (Inr None,
            emit (ConsoleError ''error processing thread actions'')
              (emit (Fetch (submit_request ?s2 (run_id r) results))
                 (?s2\<lparr>clock := clock ?s2 + 1\<rparr>))))"
    by (rule processToolActions_submits [OF calls c])
  have q: "poll ev s =
     await (tm_processToolActions ev (PRun r))
       (\<lambda>_ s. (Inr Rescheduled, emit (SetTimeout (pollInterval s)) s)) ?s1"
    by (simp add: poll_status_ok [OF net run] status not_terminal_requires_action Let_def)
  show ?thesis
    unfolding q await_def p sub clk
    by (simp add: emit_def status)
qed

theorem two_tool_calls_one_submission_witness:
  "fst (poll tooling tool_manager) = Inr Rescheduled \<and>
   trace (snd (poll tooling tool_manager)) =
     [Fetch (status_request tool_manager),
      RunStatusChanged (Some ''requires_action''),
      ConsoleError ''local function invocation error'',
      Fetch (submit_request tool_manager ''R1'' [(''call_1'', JNull), (''call_2'', JStr ''hello'')]),
      SetTimeout 2000] \<and>
   req_body (submit_request tool_manager ''R1'' [(''call_1'', JNull), (''call_2'', JStr ''hello'')]) =
     Some (JObj [(''results'', JObj [(''call_1'', JNull), (''call_2'', JStr ''hello'')])])"
proof -
  have body: "req_body (submit_request tool_manager ''R1''
      [(''call_1'', JNull), (''call_2'', JStr ''hello'')]) =
     Some (JObj [(''results'', JObj [(''call_1'', JNull), (''call_2'', JStr ''hello'')])])"
    by (simp add: submit_request_def POST_def property_order_def array_index_def digit_def)
  have net: "network tooling (clock tool_manager)"
    by (simp add: tooling_def)
  have run: "runs_retrieve (remote_service tooling) (clock tool_manager)
      (Some (tmpl (threadId tool_manager))) (Some (tmpl (activeRunId tool_manager))) = Inr tool_run"
    by (simp add: tooling_def tool_service_def)
  have outcome:
    "invoke tooling tool_manager call_broken = None \<and>
     invoke tooling tool_manager call_greet = Some (JStr ''hello'') \<and>
       [(call_id call_broken, JNull), (call_id call_greet, JStr ''hello'')] =
       [(call_id call_broken, JNull), (call_id call_greet, JStr ''hello'')] \<or>
     invoke tooling tool_manager call_broken = Some (JStr ''hello'') \<and>
     invoke tooling tool_manager call_greet = None \<and>
       [(call_id call_broken, JNull), (call_id call_greet, JStr ''hello'')] =
       [(call_id call_broken, JStr ''hello''), (call_id call_greet, JNull)]"
    by (simp add: invoke_def tool_manager_def fresh_def call_broken_def call_greet_def
        tooling_def parse_def)
  have sub: "ok (route (remote_service tooling) (clock tool_manager + 1)
      (submit_request tool_manager (run_id tool_run)
         [(call_id call_broken, JNull), (call_id call_greet, JStr ''hello'')]))"
    by (simp add: submit_request_def route_process tooling_def tool_service_def unavailable_def
        ok_def)
  have "fst (poll tooling tool_manager) = Inr Rescheduled \<and>
    trace (snd (poll tooling tool_manager)) =
      trace tool_manager @
      [Fetch (status_request tool_manager),
       RunStatusChanged (Some ''requires_action''),
       ConsoleError ''local function invocation error'',
       Fetch (submit_request tool_manager (run_id tool_run)
                [(call_id call_broken, JNull), (call_id call_greet, JStr ''hello'')])] @
      (if network tooling (clock tool_manager + 1) \<and>
          ok (route (remote_service tooling) (clock tool_manager + 1)
                (submit_request tool_manager (run_id tool_run)
                   [(call_id call_broken, JNull), (call_id call_greet, JStr ''hello'')]))
       then [] else [ConsoleError ''error processing thread actions'']) @
      [SetTimeout (pollInterval tool_manager)]"
    by (rule two_tool_calls_one_submission [OF net run _ _ _ _ _ outcome])
       (simp_all add: tool_run_def call_broken_def call_greet_def)
  then show ?thesis
    using sub net body
    by (simp add: tool_run_def call_broken_def call_greet_def)
       (simp add: tool_manager_def fresh_def tooling_def)
qed

section \<open>The order of the message list\<close>

lemma getMessages_ok:
  assumes "truthy (threadId s)" and "network ev (clock s)"
    and "messages_list (remote_service ev) (clock s) (Some (tmpl (threadId s))) = Inr ms"
  shows "tm_getMessages ev s =
     (Inr (onMessagesUpdated s (PMessagePage ms)),
      (emit (MessagesUpdated (PMessagePage ms))
         (emit (Fetch (messages_request s)) (s\<lparr>clock := clock s + 1\<rparr>)))
      \<lparr>messages := onMessagesUpdated s (PMessagePage ms)\<rparr>)"
  using assms
  by (simp add: tm_getMessages_def await_def fetch_ok_def fetch_def Let_def route_messages_get
      ok_def messages_request_def emit_def)

lemma hook_effect_reverses: "hook_effect initial_state (PMessagePage ms) = PMessagePage (rev ms)"
  by (simp add: hook_effect_def hook_onMessagesUpdated_def data_of_def initial_state_def)

lemma ref_of_first_render: "h_ref (render mount) = Some initial_state"
  by (simp add: render_def mount_def)

lemma deliver_to_mounted:
  "h_messages (h_state (deliver_messages (PMessagePage ms) (render mount))) = rev ms"
  by (simp add: deliver_messages_def render_def mount_def hook_onMessagesUpdated_def data_of_def
      initial_state_def setMessages_def)

lemma descending_rev: "descending ms \<Longrightarrow> ascending (rev ms)"
  by (simp add: descending_def ascending_def rev_map)

text \<open>
  Claim C4 says that the manager re-orders the fetched list to oldest first, so that its
  stored messages and the list it passes to \<^verbatim>\<open>onMessagesUpdated\<close> are ascending.
  \<^verbatim>\<open>getMessages\<close> stores and passes the response as it came. With the remote service
  answering newest first and a callback that only reads, both are newest first.
\<close>

theorem manager_passes_messages_as_fetched_counterexample:
  "descending [newer, older] \<and>
   messages_list (remote_service chatting) 0 (Some ''T1'') = Inr [newer, older] \<and>
   trace (snd (tm_getMessages chatting plain_manager)) =
     [Fetch (messages_request plain_manager), MessagesUpdated (PMessagePage [newer, older])] \<and>
   messages (snd (tm_getMessages chatting plain_manager)) = PMessagePage [newer, older] \<and>
   \<not> ascending [newer, older]"
proof -
  have t: "truthy (threadId plain_manager)" "network chatting (clock plain_manager)"
    "messages_list (remote_service chatting) (clock plain_manager)
       (Some (tmpl (threadId plain_manager))) = Inr [newer, older]"
    by (simp_all add: plain_manager_def fresh_def truthy_def chatting_def chat_service_def)
  show ?thesis
    unfolding getMessages_ok [OF t]
    by (simp add: emit_def) (simp add: plain_manager_def fresh_def descending_def
        ascending_def newer_def older_def chatting_def chat_service_def)
qed

text \<open>
  Claim C4, amended: the manager stores the fetched list and passes it to
  \<^verbatim>\<open>onMessagesUpdated\<close> in the order the remote service returned it, and re-orders
  nothing itself. The re-ordering is the binding hook's: its callback reverses the
  delivered list, in place, so that the hook's message state, and the manager's stored
  list with it (the same array), are oldest first when the service answers newest first.
\<close>

theorem manager_passes_messages_as_fetched:
  assumes thread: "truthy (threadId s)"
    and net: "network ev (clock s)"
    and fetched: "messages_list (remote_service ev) (clock s) (Some (tmpl (threadId s))) = Inr ms"
  shows "fst (tm_getMessages ev s) = Inr (onMessagesUpdated s (PMessagePage ms)) \<and>
    trace (snd (tm_getMessages ev s)) =
      trace s @ [Fetch (messages_request s), MessagesUpdated (PMessagePage ms)] \<and>
    messages (snd (tm_getMessages ev s)) = onMessagesUpdated s (PMessagePage ms) \<and>
    (onMessagesUpdated s = (\<lambda>p. p) \<longrightarrow>
       messages (snd (tm_getMessages ev s)) = PMessagePage ms) \<and>
    (onMessagesUpdated s = hook_effect initial_state \<longrightarrow>
       messages (snd (tm_getMessages ev s)) = PMessagePage (rev ms)) \<and>
    h_messages (h_state (deliver_messages (PMessagePage ms) (render mount))) = rev ms \<and>
    (descending ms \<longrightarrow> ascending (rev ms))"
  unfolding getMessages_ok [OF assms]
  by (simp add: emit_def hook_effect_reverses deliver_to_mounted descending_rev)

theorem manager_passes_messages_as_fetched_witness:
  "trace (snd (tm_getMessages chatting hook_manager)) =
     [Fetch (messages_request hook_manager), MessagesUpdated (PMessagePage [newer, older])] \<and>
   messages (snd (tm_getMessages chatting hook_manager)) = PMessagePage [older, newer] \<and>
   h_messages (h_state (deliver_messages (PMessagePage [newer, older]) (render mount))) =
     [older, newer] \<and>
   ascending [older, newer]"
proof -
  have t: "truthy (threadId hook_manager)" "network chatting (clock hook_manager)"
    "messages_list (remote_service chatting) (clock hook_manager)
       (Some (tmpl (threadId hook_manager))) = Inr [newer, older]"
    by (simp_all add: hook_manager_def fresh_def truthy_def chatting_def chat_service_def)
  have d: "descending [newer, older]"
    by (simp add: descending_def newer_def older_def)
  have h: "onMessagesUpdated hook_manager = hook_effect initial_state"
    by (simp add: hook_manager_def fresh_def)
  have e: "trace hook_manager = []"
    by (simp add: hook_manager_def fresh_def)
  from manager_passes_messages_as_fetched [OF t] d h e show ?thesis
    by (simp add: hook_effect_reverses)
qed

section \<open>Sending a message\<close>

lemma await_Inr: "m s = (Inr x, s') \<Longrightarrow> await m f s = f x s'"
  by (simp add: await_def)

lemma await_Inl: "m s = (Inl e, s') \<Longrightarrow> await m f s = (Inl e, s')"
  by (simp add: await_def)

lemma fetch_ok_eq:
  "fetch_ok ev req msg s =
     (if answered ev (clock s) req then Inr (answer ev (clock s) req)
      else Inl (failure ev (clock s) msg),
      emit (Fetch req) (s\<lparr>clock := clock s + 1\<rparr>))"
  by (simp add: fetch_ok_def await_def fetch_def Let_def answered_def answer_def failure_def)

lemma getMessages_eq:
  assumes "truthy (threadId s)"
  shows "tm_getMessages ev s =
     (if answered ev (clock s) (messages_request s)
      then (Inr (onMessagesUpdated s (answer ev (clock s) (messages_request s))),
            (emit (MessagesUpdated (answer ev (clock s) (messages_request s)))
               (emit (Fetch (messages_request s)) (s\<lparr>clock := clock s + 1\<rparr>)))
            \<lparr>messages := onMessagesUpdated s (answer ev (clock s) (messages_request s))\<rparr>)
      else (Inl (failure ev (clock s) ''Failed to retrieve messages''),
            emit (Fetch (messages_request s)) (s\<lparr>clock := clock s + 1\<rparr>)))"
  using assms
  by (simp add: tm_getMessages_def messages_request_def [symmetric] fetch_ok_eq await_def emit_def)

lemma pollRunStatus_detached:
  "detach tm_pollRunStatus s =
     emit (if truthy (threadId s) \<and> truthy (activeRunId s) then PollStarted
           else UnhandledRejection (Error ''Thread ID or Run ID not provided'')) s"
  by (simp add: detach_def tm_pollRunStatus_def)

lemma startRun_eq:
  assumes "truthy (threadId s)"
  shows "tm_startRun ev runArgs s =
     (if answered ev (clock s) (run_request s runArgs)
      then (Inr (answer ev (clock s) (run_request s runArgs)),
            detach tm_pollRunStatus
              ((emit (RunStatusChanged (status_of (answer ev (clock s) (run_request s runArgs))))
                  (emit (Fetch (run_request s runArgs)) (s\<lparr>clock := clock s + 1\<rparr>)))
               \<lparr>activeRunId := id_of (answer ev (clock s) (run_request s runArgs))\<rparr>))
      else (Inl (failure ev (clock s) ''Failed to start run''),
            emit (Fetch (run_request s runArgs)) (s\<lparr>clock := clock s + 1\<rparr>)))"
  using assms
  by (simp add: tm_startRun_def run_request_def [symmetric] fetch_ok_eq await_def)

lemma sendMessage_eq:
  assumes "truthy (threadId s)"
  shows "tm_sendMessage ev content runInstructions s =
     (if answered ev (clock s) (message_request s content runInstructions)
      then await (tm_getMessages ev)
             (\<lambda>_. await (tm_startRun ev (JObj []))
                (\<lambda>_ s'. (Inr (answer ev (clock s) (message_request s content runInstructions)), s')))
             (emit (Fetch (message_request s content runInstructions)) (s\<lparr>clock := clock s + 1\<rparr>))
      else (Inl (failure ev (clock s) ''Failed to send message''),
            emit (Fetch (message_request s content runInstructions)) (s\<lparr>clock := clock s + 1\<rparr>)))"
  using assms
  by (simp add: tm_sendMessage_def message_request_def [symmetric] fetch_ok_eq await_def)

lemma request_frames [simp]:
  "messages_request (emit e s) = messages_request s"
  "messages_request (s\<lparr>clock := t\<rparr>) = messages_request s"
  "messages_request (s\<lparr>messages := p\<rparr>) = messages_request s"
  "run_request (emit e s) a = run_request s a"
  "run_request (s\<lparr>clock := t\<rparr>) a = run_request s a"
  "run_request (s\<lparr>messages := p\<rparr>) a = run_request s a"
  "messages_request (s\<lparr>trace := es\<rparr>) = messages_request s"
  "run_request (s\<lparr>trace := es\<rparr>) a = run_request s a"
  by (simp_all add: messages_request_def run_request_def GET_def POST_def emit_def
      del: stringify.simps)

lemma emit_fields [simp]:
  "clock (emit e s) = clock s" "threadId (emit e s) = threadId s"
  "activeRunId (emit e s) = activeRunId s" "assistantId (emit e s) = assistantId s"
  "onMessagesUpdated (emit e s) = onMessagesUpdated s" "messages (emit e s) = messages s"
  "pollInterval (emit e s) = pollInterval s" "functionMap (emit e s) = functionMap s"
  "trace (emit e s) = trace s @ [e]"
  by (simp_all add: emit_def)

lemma answered_message:
  "answered ev t (message_request s content runInstructions) =
     (network ev t \<and>
      (\<exists>m. messages_create (remote_service ev) t (Some (tmpl (threadId s))) (Some (JStr content)) = Inr m))"
  "messages_create (remote_service ev) t (Some (tmpl (threadId s))) (Some (JStr content)) = Inr m \<Longrightarrow>
     answer ev t (message_request s content runInstructions) = PMessage m"
  by (auto simp add: answered_def answer_def message_request_def route_messages_post
      stringify_message params_content_def ok_def simp del: stringify.simps
      split: sum.splits option.splits)

lemma answered_messages:
  "answered ev t (messages_request s) =
     (network ev t \<and> (\<exists>ms. messages_list (remote_service ev) t (Some (tmpl (threadId s))) = Inr ms))"
  "messages_list (remote_service ev) t (Some (tmpl (threadId s))) = Inr ms \<Longrightarrow>
     answer ev t (messages_request s) = PMessagePage ms"
  by (auto simp add: answered_def answer_def messages_request_def route_messages_get ok_def
      split: sum.splits)

lemma answered_run:
  "answered ev t (run_request s (JObj [])) =
     (network ev t \<and>
      (\<exists>r. runs_create (remote_service ev) t (Some (tmpl (threadId s)))
             [(''assistant_id'', JStr (assistantId s))] = Inr r))"
  "runs_create (remote_service ev) t (Some (tmpl (threadId s)))
     [(''assistant_id'', JStr (assistantId s))] = Inr r \<Longrightarrow>
     answer ev t (run_request s (JObj [])) = PRun r"
  by (auto simp add: answered_def answer_def run_request_def route_runs_post stringify_run
      spread_run ok_def simp del: stringify.simps split: sum.splits)

text \<open>
  Claim C5 speaks of every call of \<^verbatim>\<open>sendMessage\<close> on an existing thread. A call whose
  first request is not answered ok throws there: on the thread \<open>T1\<close>, with the remote
  service failing, the message is not appended, the messages are not fetched again, no run
  is started and the call rejects.
\<close>

theorem sendMessage_without_answer_counterexample:
  "threadId plain_manager = Some ''T1'' \<and>
   tm_sendMessage failing ''hello'' None plain_manager =
     (Inl (Error ''Failed to send message''),
      plain_manager\<lparr>clock := 1, trace := [Fetch (message_request plain_manager ''hello'' None)]\<rparr>)"
proof -
  have t: "truthy (threadId plain_manager)"
    by (simp add: plain_manager_def fresh_def truthy_def)
  have a: "\<not> answered failing (clock plain_manager) (message_request plain_manager ''hello'' None)"
    by (simp add: answered_message(1) failing_def unavailable_def)
  show ?thesis
    using a by (simp add: sendMessage_eq [OF t] failure_def emit_def)
      (simp add: plain_manager_def fresh_def failing_def)
qed

text \<open>
  Claim C5, amended: for every call of \<^verbatim>\<open>sendMessage\<close> on a manager with a thread whose
  three requests are answered ok, the message is appended, then the message list is
  fetched again, handed to \<^verbatim>\<open>onMessagesUpdated\<close> and stored as the message cache, then
  one run is created, its status signalled and its polling started; these are all the
  changes to the manager, in this order, and the call resolves with the appended message.
  (A run without an id cannot be polled: \<^verbatim>\<open>pollRunStatus\<close> rejects, and nobody awaits
  it.) When one of the three requests is not answered ok, the call throws at that request
  and takes none of the later steps.
\<close>

theorem sendMessage_appends_refreshes_starts_run:
  assumes thread: "truthy (threadId s)"
  shows
   "(network ev (clock s) \<and> network ev (clock s + 1) \<and> network ev (clock s + 2) \<and>
     messages_create (remote_service ev) (clock s) (Some (tmpl (threadId s)))
       (Some (JStr content)) = Inr m \<and>
     messages_list (remote_service ev) (clock s + 1) (Some (tmpl (threadId s))) = Inr ms \<and>
     runs_create (remote_service ev) (clock s + 2) (Some (tmpl (threadId s)))
       [(''assistant_id'', JStr (assistantId s))] = Inr r \<longrightarrow>
     tm_sendMessage ev content runInstructions s =
       (Inr (PMessage m),
        s\<lparr>clock := clock s + 3,
          trace := trace s @
            [Fetch (message_request s content runInstructions),
             Fetch (messages_request s),
             MessagesUpdated (PMessagePage ms),
             Fetch (run_request s (JObj [])),
             RunStatusChanged (Some (run_status r)),
             (if run_id r \<noteq> [] then PollStarted
              else UnhandledRejection (Error ''Thread ID or Run ID not provided''))],
          messages := onMessagesUpdated s (PMessagePage ms),
          activeRunId := Some (run_id r)\<rparr>)) \<and>
    (\<not> answered ev (clock s) (message_request s content runInstructions) \<longrightarrow>
     tm_sendMessage ev content runInstructions s =
       (Inl (failure ev (clock s) ''Failed to send message''),
        s\<lparr>clock := clock s + 1,
          trace := trace s @ [Fetch (message_request s content runInstructions)]\<rparr>)) \<and>
    (answered ev (clock s) (message_request s content runInstructions) \<and>
     \<not> answered ev (clock s + 1) (messages_request s) \<longrightarrow>
     tm_sendMessage ev content runInstructions s =
       (Inl (failure ev (clock s + 1) ''Failed to retrieve messages''),
        s\<lparr>clock := clock s + 2,
          trace := trace s @
            [Fetch (message_request s content runInstructions), Fetch (messages_request s)]\<rparr>)) \<and>
    (answered ev (clock s) (message_request s content runInstructions) \<and>
     answered ev (clock s + 1) (messages_request s) \<and>
     \<not> answered ev (clock s + 2) (run_request s (JObj [])) \<longrightarrow>
     tm_sendMessage ev content runInstructions s =
       (Inl (failure ev (clock s + 2) ''Failed to start run''),
        s\<lparr>clock := clock s + 3,
          trace := trace s @
            [Fetch (message_request s content runInstructions),
             Fetch (messages_request s),
             MessagesUpdated (answer ev (clock s + 1) (messages_request s)),
             Fetch (run_request s (JObj []))],
          messages := onMessagesUpdated s (answer ev (clock s + 1) (messages_request s))\<rparr>))"
proof -
  let ?s1 = "emit (Fetch (message_request s content runInstructions)) (s\<lparr>clock := Suc (clock s)\<rparr>)"
  let ?p2 = "answer ev (Suc (clock s)) (messages_request s)"
  let ?s2 = "(emit (MessagesUpdated ?p2)
               (emit (Fetch (messages_request s)) (?s1\<lparr>clock := Suc (Suc (clock s))\<rparr>)))
             \<lparr>messages := onMessagesUpdated s ?p2\<rparr>"
  have t1: "truthy (threadId ?s1)" and t2: "truthy (threadId ?s2)"
    using thread by simp_all
  have g: "tm_getMessages ev ?s1 =
     (if answered ev (Suc (clock s)) (messages_request s)
      then (Inr (onMessagesUpdated s ?p2), ?s2)
      else (Inl (failure ev (Suc (clock s)) ''Failed to retrieve messages''),
            emit (Fetch (messages_request s)) (?s1\<lparr>clock := Suc (Suc (clock s))\<rparr>)))"
    using getMessages_eq [OF t1, of ev] by simp
  have r: "tm_startRun ev (JObj []) ?s2 =
     (if answered ev (Suc (Suc (clock s))) (run_request s (JObj []))
      then (Inr (answer ev (Suc (Suc (clock s))) (run_request s (JObj []))),
            detach tm_pollRunStatus
              ((emit (RunStatusChanged (status_of (answer ev (Suc (Suc (clock s))) (run_request s (JObj [])))))
                  (emit (Fetch (run_request s (JObj []))) (?s2\<lparr>clock := Suc (Suc (Suc (clock s)))\<rparr>)))
               \<lparr>activeRunId := id_of (answer ev (Suc (Suc (clock s))) (run_request s (JObj [])))\<rparr>))
      else (Inl (failure ev (Suc (Suc (clock s))) ''Failed to start run''),
            emit (Fetch (run_request s (JObj []))) (?s2\<lparr>clock := Suc (Suc (Suc (clock s)))\<rparr>)))"
    using startRun_eq [OF t2, of ev "JObj []"] by simp
  have e: "tm_sendMessage ev content runInstructions s =
     (if answered ev (clock s) (message_request s content runInstructions)
      then (if answered ev (Suc (clock s)) (messages_request s)
            then (case tm_startRun ev (JObj []) ?s2 of
                    (Inl x, s') \<Rightarrow> (Inl x, s')
                  | (Inr x, s') \<Rightarrow>
                      (Inr (answer ev (clock s) (message_request s content runInstructions)), s'))
            else (Inl (failure ev (Suc (clock s)) ''Failed to retrieve messages''),
                  emit (Fetch (messages_request s)) (?s1\<lparr>clock := Suc (Suc (clock s))\<rparr>)))
      else (Inl (failure ev (clock s) ''Failed to send message''), ?s1))"
    by (simp add: sendMessage_eq [OF thread] await_def [of "tm_getMessages ev"] g)
       (simp add: await_def)
  show ?thesis
  proof (intro conjI impI)
    assume h: "network ev (clock s) \<and> network ev (clock s + 1) \<and> network ev (clock s + 2) \<and>
     messages_create (remote_service ev) (clock s) (Some (tmpl (threadId s)))
       (Some (JStr content)) = Inr m \<and>
     messages_list (remote_service ev) (clock s + 1) (Some (tmpl (threadId s))) = Inr ms \<and>
     runs_create (remote_service ev) (clock s + 2) (Some (tmpl (threadId s)))
       [(''assistant_id'', JStr (assistantId s))] = Inr r"
    then have a: "answered ev (clock s) (message_request s content runInstructions)"
      "answered ev (clock s + 1) (messages_request s)"
      "answered ev (clock s + 2) (run_request s (JObj []))"
      by (simp_all add: answered_message(1) answered_messages(1) answered_run(1))
    from h have p: "answer ev (clock s) (message_request s content runInstructions) = PMessage m"
      "?p2 = PMessagePage ms"
      "answer ev (clock s + 2) (run_request s (JObj [])) = PRun r"
      by (simp_all add: answered_message(2) answered_messages(2) answered_run(2))
    show "tm_sendMessage ev content runInstructions s =
       (Inr (PMessage m),
        s\<lparr>clock := clock s + 3,
          trace := trace s @
            [Fetch (message_request s content runInstructions),
             Fetch (messages_request s),
             MessagesUpdated (PMessagePage ms),
             Fetch (run_request s (JObj [])),
             RunStatusChanged (Some (run_status r)),
             (if run_id r \<noteq> [] then PollStarted
              else UnhandledRejection (Error ''Thread ID or Run ID not provided''))],
          messages := onMessagesUpdated s (PMessagePage ms),
          activeRunId := Some (run_id r)\<rparr>)"
      unfolding e r using a thread p
      by (simp add: pollRunStatus_detached status_of_def id_of_def eval_nat_numeral)
         (simp add: emit_def truthy_def)
  next
    assume "\<not> answered ev (clock s) (message_request s content runInstructions)"
    then show "tm_sendMessage ev content runInstructions s =
       (Inl (failure ev (clock s) ''Failed to send message''),
        s\<lparr>clock := clock s + 1,
          trace := trace s @ [Fetch (message_request s content runInstructions)]\<rparr>)"
      unfolding e by (simp add: emit_def eval_nat_numeral)
  next
    assume "answered ev (clock s) (message_request s content runInstructions) \<and>
     \<not> answered ev (clock s + 1) (messages_request s)"
    then show "tm_sendMessage ev content runInstructions s =
       (Inl (failure ev (clock s + 1) ''Failed to retrieve messages''),
        s\<lparr>clock := clock s + 2,
          trace := trace s @
            [Fetch (message_request s content runInstructions), Fetch (messages_request s)]\<rparr>)"
      unfolding e by (simp add: emit_def eval_nat_numeral)
  next
    assume "answered ev (clock s) (message_request s content runInstructions) \<and>
     answered ev (clock s + 1) (messages_request s) \<and>
     \<not> answered ev (clock s + 2) (run_request s (JObj []))"
    then show "tm_sendMessage ev content runInstructions s =
       (Inl (failure ev (clock s + 2) ''Failed to start run''),
        s\<lparr>clock := clock s + 3,
          trace := trace s @
            [Fetch (message_request s content runInstructions),
             Fetch (messages_request s),
             MessagesUpdated (answer ev (clock s + 1) (messages_request s)),
             Fetch (run_request s (JObj []))],
          messages := onMessagesUpdated s (answer ev (clock s + 1) (messages_request s))\<rparr>)"
      unfolding e r by (simp add: emit_def eval_nat_numeral)
  qed
qed

theorem sendMessage_appends_refreshes_starts_run_witness:
  "tm_sendMessage sending ''hello'' None plain_manager =
     (Inr (PMessage greeting),
      plain_manager\<lparr>clock := 3,
        trace :=
          [Fetch (message_request plain_manager ''hello'' None),
           Fetch (messages_request plain_manager),
           MessagesUpdated (PMessagePage [greeting, newer, older]),
           Fetch (run_request plain_manager (JObj [])),
           RunStatusChanged (Some ''queued''),
           PollStarted],
        messages := PMessagePage [greeting, newer, older],
        activeRunId := Some ''R1''\<rparr>) \<and>
   fst (tm_sendMessage failing ''hello'' None plain_manager) = Inl (Error ''Failed to send message'') \<and>
   trace (snd (tm_sendMessage failing ''hello'' None plain_manager)) =
     [Fetch (message_request plain_manager ''hello'' None)]"
proof -
  have t: "truthy (threadId plain_manager)"
    by (simp add: plain_manager_def fresh_def truthy_def)
  have h: "network sending (clock plain_manager) \<and>
    network sending (clock plain_manager + 1) \<and>
    network sending (clock plain_manager + 2) \<and>
    messages_create (remote_service sending) (clock plain_manager)
       (Some (tmpl (threadId plain_manager))) (Some (JStr ''hello'')) = Inr greeting \<and>
    messages_list (remote_service sending) (clock plain_manager + 1)
       (Some (tmpl (threadId plain_manager))) = Inr [greeting, newer, older] \<and>
    runs_create (remote_service sending) (clock plain_manager + 2)
       (Some (tmpl (threadId plain_manager)))
       [(''assistant_id'', JStr (assistantId plain_manager))] = Inr queued_run"
    by (simp add: sending_def send_service_def)
  have a: "\<not> answered failing (clock plain_manager) (message_request plain_manager ''hello'' None)"
    by (simp add: answered_message(1) failing_def unavailable_def)
  have e: "trace plain_manager = []" "clock plain_manager = 0"
    "onMessagesUpdated plain_manager = (\<lambda>p. p)" "network failing 0"
    by (simp_all add: plain_manager_def fresh_def failing_def)
  have q: "run_id queued_run = ''R1''" "run_status queued_run = ''queued''"
    by (simp_all add: queued_run_def)
  from sendMessage_appends_refreshes_starts_run [OF t, of sending "''hello''" greeting
      "[greeting, newer, older]" queued_run None]
    sendMessage_appends_refreshes_starts_run [OF t, of failing "''hello''" greeting
      "[greeting, newer, older]" queued_run None] h a
  show ?thesis
    by (simp add: e q failure_def)
qed

section \<open>The poll chain and terminal statuses\<close>

lemma terminal_statuses:
  "terminal ''completed''" "terminal ''failed''" "terminal ''cancelled''" "terminal ''expired''"
  "\<not> terminal ''queued''" "\<not> terminal ''in_progress''" "\<not> terminal ''requires_action''"
  "\<not> terminal ''cancelling''"
  by (simp_all add: terminal_def)

lemma counts_emit:
  "refreshes (emit e s) = refreshes s + (if is_refresh e then 1 else 0)"
  "timers (emit e s) = timers s + (if is_timer e then 1 else 0)"
  "updates (emit e s) = updates s + (if is_update e then 1 else 0)"
  by (simp_all add: refreshes_def timers_def updates_def emit_def)

lemma counts_clock [simp]:
  "refreshes (s\<lparr>clock := t\<rparr>) = refreshes s" "timers (s\<lparr>clock := t\<rparr>) = timers s"
  "updates (s\<lparr>clock := t\<rparr>) = updates s"
  "refreshes (s\<lparr>messages := p\<rparr>) = refreshes s" "timers (s\<lparr>messages := p\<rparr>) = timers s"
  "updates (s\<lparr>messages := p\<rparr>) = updates s"
  by (simp_all add: refreshes_def timers_def updates_def)

lemma same_chain_refl [simp]: "same_chain s s"
  by (simp add: same_chain_def)

lemma same_chain_trans: "same_chain s s' \<Longrightarrow> same_chain s' s'' \<Longrightarrow> same_chain s s''"
  by (simp add: same_chain_def)

lemma same_chain_emit [simp]:
  "\<not> is_update e \<Longrightarrow> same_chain s (emit e s') = same_chain s s'"
  "same_chain s (s'\<lparr>clock := t\<rparr>) = same_chain s s'"
  by (simp_all add: same_chain_def counts_emit)

lemma kinds [simp]:
  "\<not> is_refresh (ConsoleError m)" "\<not> is_timer (ConsoleError m)"
  "\<not> is_refresh (RunStatusChanged st)" "\<not> is_timer (RunStatusChanged st)"
  "\<not> is_refresh (MessagesUpdated p)" "\<not> is_timer (MessagesUpdated p)"
  "\<not> is_refresh (UnhandledRejection x)" "\<not> is_timer (UnhandledRejection x)"
  "\<not> is_refresh (SetTimeout d)" "is_timer (SetTimeout d)"
  "\<not> is_timer (Fetch q)"
  "\<not> is_update (ConsoleError m)" "\<not> is_update (RunStatusChanged st)"
  "\<not> is_update (UnhandledRejection x)" "\<not> is_update (SetTimeout d)"
  "\<not> is_update (Fetch q)" "is_update (MessagesUpdated p)"
  "\<not> is_refresh (Fetch (status_request s))"
  "\<not> is_refresh (Fetch (submit_request s rid results))"
  "is_refresh (Fetch (messages_request s))"
  by (simp_all add: is_refresh_def is_timer_def is_update_def status_request_def
      submit_request_def messages_request_def GET_def POST_def del: stringify.simps)

lemma collect_quiet:
  "collect ev actions results s = (results', s') \<Longrightarrow>
     same_chain s s' \<and> refreshes s' = refreshes s \<and> timers s' = timers s \<and> clock s' = clock s"
proof (induction actions arbitrary: results s)
  case Nil
  then show ?case by simp
next
  case (Cons a actions)
  show ?case
  proof (cases "call_type a = ''function''")
    case False
    with Cons.prems Cons.IH show ?thesis by simp
  next
    case True
    show ?thesis
    proof (cases "invoke ev s a")
      case (Some v)
      with True Cons.prems Cons.IH show ?thesis by simp
    next
      case None
      with True Cons.prems
      have "collect ev actions (assign (call_id a) JNull results)
              (emit (ConsoleError ''local function invocation error'') s) = (results', s')"
        by simp
      from Cons.IH [OF this] show ?thesis
        by (simp add: counts_emit same_chain_def)
    qed
  qed
qed

lemma processToolActions_cases:
  assumes "tool_calls_of run = Some actions"
    and "collect ev actions [] s = (results, s1)"
  shows "tm_processToolActions ev run s =
     (if network ev (clock s1) \<and>
         ok (route (remote_service ev) (clock s1) (submit_request s1 (tmpl (id_of run)) results))
      then (Inr (Some (resp_json (route (remote_service ev) (clock s1)
                     (submit_request s1 (tmpl (id_of run)) results)))),
            emit (Fetch (submit_request s1 (tmpl (id_of run)) results))
              (s1\<lparr>clock := clock s1 + 1\<rparr>))
      else (Inr None,
            emit (ConsoleError ''error processing thread actions'')
              (emit (Fetch (submit_request s1 (tmpl (id_of run)) results))
                 (s1\<lparr>clock := clock s1 + 1\<rparr>))))"
  using assms
  by (simp add: tm_processToolActions_def await_def fetch_ok_def fetch_def
      submit_request_def Let_def)

lemma processToolActions_quiet:
  "\<exists>x s'. tm_processToolActions ev run s = (Inr x, s') \<and>
     same_chain s s' \<and> refreshes s' = refreshes s \<and> timers s' = timers s"
proof (cases "tool_calls_of run")
  case None
  then show ?thesis
    by (simp add: tm_processToolActions_def counts_emit)
next
  case (Some actions)
  obtain results s1 where c: "collect ev actions [] s = (results, s1)"
    by (cases "collect ev actions [] s")
  note q = collect_quiet [OF c]
  show ?thesis
    unfolding processToolActions_cases [OF Some c]
    using q by (simp add: counts_emit)
qed

lemma fetch_ok_state:
  "snd (fetch_ok ev req msg s) = emit (Fetch req) (s\<lparr>clock := clock s + 1\<rparr>)"
  by (simp add: fetch_ok_def await_def fetch_def Let_def)

lemma await_processToolActions:
  "await (tm_processToolActions ev run) (\<lambda>_. g) t = g (snd (tm_processToolActions ev run t))"
proof -
  obtain x s' where "tm_processToolActions ev run t = (Inr x, s')"
    using processToolActions_quiet [of ev run t] by blast
  then show ?thesis
    by (simp add: await_def)
qed

lemma poll_cases:
  "poll ev s =
     (case fetch_ok ev (status_request s) ''Failed to check run status'' s of
        (Inl e, s0) \<Rightarrow> (Inl e, s0)
      | (Inr run, s0) \<Rightarrow>
          (case status_of run of
             None \<Rightarrow> (Inl (TypeError ''Cannot read properties of undefined''),
                       emit (RunStatusChanged None) s0)
           | Some status \<Rightarrow>
               (if terminal status
                then (Inr Stopped,
                      detach (tm_getMessages ev) (emit (RunStatusChanged (Some status)) s0))
                else if status = ''requires_action''
                then (Inr Rescheduled,
                      emit (SetTimeout (pollInterval
                              (snd (tm_processToolActions ev run
                                     (emit (RunStatusChanged (Some status)) s0)))))
                        (snd (tm_processToolActions ev run
                                (emit (RunStatusChanged (Some status)) s0))))
                else (Inr Rescheduled,
                      emit (SetTimeout (pollInterval s0))
                        (emit (RunStatusChanged (Some status)) s0)))))"
proof -
  obtain res s0 where f: "fetch_ok ev (status_request s) ''Failed to check run status'' s = (res, s0)"
    by (cases "fetch_ok ev (status_request s) ''Failed to check run status'' s")
  show ?thesis
  proof (cases res)
    case (Inl e)
    with f show ?thesis
      by (simp add: poll_def await_def status_request_def)
  next
    case (Inr run)
    note r = f [unfolded Inr]
    show ?thesis
    proof (cases "status_of run")
      case None
      with r show ?thesis
        by (simp add: poll_def status_request_def [symmetric]
            await_Inr [of "fetch_ok ev (status_request s) ''Failed to check run status''" s, OF r])
    next
      case (Some status)
      show ?thesis
      proof (cases "status = ''requires_action''")
        case True
        with r Some show ?thesis
          by (simp add: poll_def status_request_def [symmetric] await_processToolActions Let_def
              terminal_statuses await_Inr [of "fetch_ok ev (status_request s) ''Failed to check run status''" s, OF r])
      next
        case False
        with r Some show ?thesis
          by (simp add: poll_def status_request_def [symmetric]
              await_Inr [of "fetch_ok ev (status_request s) ''Failed to check run status''" s, OF r])
             (simp add: await_def emit_def)
      qed
    qed
  qed
qed

lemma poll_rescheduled:
  assumes "poll ev s = (Inr Rescheduled, s')"
  shows "same_chain s s' \<and> refreshes s' = refreshes s \<and> timers s' = timers s + 1"
proof -
  obtain res s0 where f: "fetch_ok ev (status_request s) ''Failed to check run status'' s = (res, s0)"
    by (cases "fetch_ok ev (status_request s) ''Failed to check run status'' s")
  have s0: "s0 = emit (Fetch (status_request s)) (s\<lparr>clock := clock s + 1\<rparr>)"
    using fetch_ok_state [of ev "status_request s" "''Failed to check run status''" s] f by simp
  from assms f obtain run status where res: "res = Inr run" and st: "status_of run = Some status"
    and nt: "\<not> terminal status"
    by (auto simp add: poll_cases split: sum.splits option.splits if_splits)
  show ?thesis
  proof (cases "status = ''requires_action''")
    case True
    let ?t = "emit (RunStatusChanged (Some status)) s0"
    obtain x t' where p: "tm_processToolActions ev run ?t = (Inr x, t')"
      and q: "same_chain ?t t'" "refreshes t' = refreshes ?t" "timers t' = timers ?t"
      using processToolActions_quiet [of ev run ?t] by blast
    from assms f res st nt True p have "s' = emit (SetTimeout (pollInterval t')) t'"
      by (simp add: poll_cases)
    with q show ?thesis
      by (simp add: counts_emit s0 same_chain_def)
  next
    case False
    with assms f res st nt
    have "s' = emit (SetTimeout (pollInterval s0)) (emit (RunStatusChanged (Some status)) s0)"
      by (simp add: poll_cases)
    then show ?thesis
      by (simp add: counts_emit s0)
  qed
qed

lemma poll_chain_polling:
  "poll_chain n ev s = (Polling, s') \<Longrightarrow>
     same_chain s s' \<and> refreshes s' = refreshes s \<and> timers s' = timers s + n"
proof (induction n arbitrary: s)
  case 0
  then show ?case by simp
next
  case (Suc n)
  from Suc.prems obtain s1 where p: "poll ev s = (Inr Rescheduled, s1)"
    and c: "poll_chain n ev s1 = (Polling, s')"
    by (auto split: prod.splits sum.splits poll_result.splits)
  from poll_rescheduled [OF p] Suc.IH [OF c] show ?case
    by (auto intro: same_chain_trans)
qed

lemma poll_chain_add:
  "poll_chain n ev s = (Polling, s') \<Longrightarrow> poll_chain (n + m) ev s = poll_chain m ev s'"
proof (induction n arbitrary: s)
  case 0
  then show ?case by simp
next
  case (Suc n)
  from Suc.prems obtain s1 where p: "poll ev s = (Inr Rescheduled, s1)"
    and c: "poll_chain n ev s1 = (Polling, s')"
    by (auto split: prod.splits sum.splits poll_result.splits)
  from Suc.IH [OF c] p show ?case by simp
qed

lemma getMessages_detached:
  assumes "truthy (threadId s)"
  shows "refreshes (detach (tm_getMessages ev) s) = refreshes s + 1 \<and>
         timers (detach (tm_getMessages ev) s) = timers s"
  using assms
  by (simp add: detach_def tm_getMessages_def await_def fetch_ok_def fetch_def Let_def
      counts_emit messages_request_def [symmetric])

lemma getMessages_refreshed:
  assumes "truthy (threadId s)" and "network ev (clock s)"
    and "messages_list (remote_service ev) (clock s) (Some (tmpl (threadId s))) = Inr ms"
  shows "detach (tm_getMessages ev) s =
     (emit (MessagesUpdated (PMessagePage ms))
        (emit (Fetch (messages_request s)) (s\<lparr>clock := clock s + 1\<rparr>)))
     \<lparr>messages := onMessagesUpdated s (PMessagePage ms)\<rparr>"
  using assms
  by (simp add: detach_def getMessages_eq answered_messages)

lemma poll_terminal:
  assumes "truthy (threadId s)" and "network ev (clock s)"
    and "runs_retrieve (remote_service ev) (clock s) (Some (tmpl (threadId s)))
           (Some (tmpl (activeRunId s))) = Inr r"
    and "terminal (run_status r)"
  shows "poll ev s =
     (Inr Stopped,
      detach (tm_getMessages ev)
        (emit (RunStatusChanged (Some (run_status r)))
           (emit (Fetch (status_request s)) (s\<lparr>clock := clock s + 1\<rparr>))))"
  using assms(4) by (simp add: poll_status_ok [OF assms(2,3)] Let_def)

lemma poll_nonterminal:
  assumes "network ev (clock s)"
    and "runs_retrieve (remote_service ev) (clock s) (Some (tmpl (threadId s)))
           (Some (tmpl (activeRunId s))) = Inr r"
    and "\<not> terminal (run_status r)"
  shows "fst (poll ev s) = Inr Rescheduled"
  using assms(3)
  by (simp add: poll_status_ok [OF assms(1,2)] Let_def await_processToolActions)
     (simp add: await_def)

lemma same_chain_requests:
  assumes "same_chain s s'"
  shows "status_request s' = status_request s" "messages_request s' = messages_request s"
  using assms by (simp_all add: same_chain_def status_request_def messages_request_def GET_def)

text \<open>
  Claim C6. A poll chain on a manager with a thread has run \<open>n\<close> cycles, each of which
  set the timer again, and the next status fetch is answered with the run \<open>r\<close>. If the
  status of \<open>r\<close> is completed, failed, cancelled or expired, the chain is finished
  however many more timer firings it is given: after the status callback it makes one
  call of \<^verbatim>\<open>getMessages\<close> and sets no timer beyond the \<open>n\<close> earlier ones. That call
  is the only GET of the messages in the whole chain, and when it is answered with the
  list \<open>ms\<close>, the list is handed to \<^verbatim>\<open>onMessagesUpdated\<close>, the only such call in the
  chain, and stored as the message cache. If the status is queued, in_progress,
  requires_action or cancelling, the chain is still polling: the cycle set one more timer,
  fetched no messages and left the message cache alone.
\<close>

theorem polling_stops_exactly_at_terminal_status:
  assumes thread: "truthy (threadId s)"
    and polling: "poll_chain n ev s = (Polling, s')"
    and net: "network ev (clock s')"
    and run: "runs_retrieve (remote_service ev) (clock s') (Some (tmpl (threadId s')))
                (Some (tmpl (activeRunId s'))) = Inr r"
  shows "(run_status r \<in> {''completed'', ''failed'', ''cancelled'', ''expired''} \<longrightarrow>
            poll_chain (Suc n + k) ev s =
              (Finished,
               detach (tm_getMessages ev)
                 (emit (RunStatusChanged (Some (run_status r)))
                    (emit (Fetch (status_request s)) (s'\<lparr>clock := clock s' + 1\<rparr>)))) \<and>
            timers (snd (poll_chain (Suc n + k) ev s)) = timers s + n \<and>
            refreshes (snd (poll_chain (Suc n + k) ev s)) = refreshes s + 1 \<and>
            (\<forall>ms. network ev (clock s' + 1) \<and>
                messages_list (remote_service ev) (clock s' + 1) (Some (tmpl (threadId s))) = Inr ms \<longrightarrow>
                messages (snd (poll_chain (Suc n + k) ev s)) = onMessagesUpdated s (PMessagePage ms) \<and>
                updates (snd (poll_chain (Suc n + k) ev s)) = updates s + 1 \<and>
                trace (snd (poll_chain (Suc n + k) ev s)) =
                  trace s' @
                  [Fetch (status_request s), RunStatusChanged (Some (run_status r)),
                   Fetch (messages_request s), MessagesUpdated (PMessagePage ms)])) \<and>
         (run_status r \<in> {''queued'', ''in_progress'', ''requires_action'', ''cancelling''} \<longrightarrow>
            fst (poll_chain (Suc n) ev s) = Polling \<and>
            timers (snd (poll_chain (Suc n) ev s)) = timers s + Suc n \<and>
            refreshes (snd (poll_chain (Suc n) ev s)) = refreshes s \<and>
            updates (snd (poll_chain (Suc n) ev s)) = updates s \<and>
            messages (snd (poll_chain (Suc n) ev s)) = messages s)"
proof (intro conjI impI allI)
  note before = poll_chain_polling [OF polling]
  have same: "same_chain s s'"
    using before by simp
  have thread': "truthy (threadId s')"
    using same thread by (simp add: same_chain_def)
  let ?s1 = "emit (RunStatusChanged (Some (run_status r)))
               (emit (Fetch (status_request s)) (s'\<lparr>clock := clock s' + 1\<rparr>))"
  have t1: "truthy (threadId ?s1)"
    using thread' by simp
  {
    assume "run_status r \<in> {''completed'', ''failed'', ''cancelled'', ''expired''}"
    then have "terminal (run_status r)"
      using terminal_statuses by auto
    note stop = poll_terminal [OF thread' net run this, unfolded same_chain_requests [OF same]]
    have "poll_chain (Suc n + k) ev s = poll_chain (Suc k) ev s'"
      using poll_chain_add [OF polling, of "Suc k"] by simp
    also have "\<dots> = (Finished, detach (tm_getMessages ev) ?s1)"
      using stop by simp
    finally show c: "poll_chain (Suc n + k) ev s = (Finished, detach (tm_getMessages ev) ?s1)" .
    show "timers (snd (poll_chain (Suc n + k) ev s)) = timers s + n"
      unfolding c snd_conv
      using getMessages_detached [OF t1, of ev] before by (simp add: counts_emit)
    show "refreshes (snd (poll_chain (Suc n + k) ev s)) = refreshes s + 1"
      unfolding c snd_conv
      using getMessages_detached [OF t1, of ev] before by (simp add: counts_emit)
    {
      fix ms
      assume "network ev (clock s' + 1) \<and>
        messages_list (remote_service ev) (clock s' + 1) (Some (tmpl (threadId s))) = Inr ms"
      then have "network ev (clock ?s1)"
        "messages_list (remote_service ev) (clock ?s1) (Some (tmpl (threadId ?s1))) = Inr ms"
        using same by (simp_all add: same_chain_def)
      note fresh = getMessages_refreshed [OF t1 this]
      show "messages (snd (poll_chain (Suc n + k) ev s)) = onMessagesUpdated s (PMessagePage ms)"
        unfolding c snd_conv fresh
        using same by (simp add: same_chain_def)
      show "updates (snd (poll_chain (Suc n + k) ev s)) = updates s + 1"
        unfolding c snd_conv fresh
        using same by (simp add: same_chain_def counts_emit)
      show "trace (snd (poll_chain (Suc n + k) ev s)) =
                  trace s' @
                  [Fetch (status_request s), RunStatusChanged (Some (run_status r)),
                   Fetch (messages_request s), MessagesUpdated (PMessagePage ms)]"
        unfolding c snd_conv fresh
        using same_chain_requests [OF same] by (simp add: messages_request_def GET_def)
    }
  }
  {
    assume "run_status r \<in> {''queued'', ''in_progress'', ''requires_action'', ''cancelling''}"
    then have "\<not> terminal (run_status r)"
      using terminal_statuses by auto
    note go = poll_nonterminal [OF net run this]
    obtain t where p: "poll ev s' = (Inr Rescheduled, t)"
      using go by (cases "poll ev s'") simp
    have "poll_chain (Suc n) ev s = poll_chain (Suc 0) ev s'"
      using poll_chain_add [OF polling, of "Suc 0"] by simp
    also have "\<dots> = (Polling, t)"
      using p by simp
    finally have c: "poll_chain (Suc n) ev s = (Polling, t)" .
    note after = poll_rescheduled [OF p]
    show "fst (poll_chain (Suc n) ev s) = Polling"
      by (simp only: c fst_conv)
    show "timers (snd (poll_chain (Suc n) ev s)) = timers s + Suc n"
      unfolding c snd_conv using after before by simp
    show "refreshes (snd (poll_chain (Suc n) ev s)) = refreshes s"
      unfolding c snd_conv using after before by simp
    show "updates (snd (poll_chain (Suc n) ev s)) = updates s"
      unfolding c snd_conv using after before by (simp add: same_chain_def)
    show "messages (snd (poll_chain (Suc n) ev s)) = messages s"
      unfolding c snd_conv using after before by (simp add: same_chain_def)
  }
qed

lemma poll_queued: "poll running watching = (Inr Rescheduled, after_queued)"
proof -
  have "network running (clock watching)"
    "runs_retrieve (remote_service running) (clock watching) (Some (tmpl (threadId watching)))
       (Some (tmpl (activeRunId watching))) = Inr queued_run"
    by (simp_all add: running_def lifecycle_service_def watching_def fresh_def)
  from poll_status_ok [OF this] show ?thesis
    by (simp add: queued_run_def terminal_statuses Let_def await_def after_queued_def emit_def)
       (simp add: watching_def fresh_def)
qed

lemma poll_in_progress: "poll running after_queued = (Inr Rescheduled, after_in_progress)"
proof -
  have "network running (clock after_queued)"
    "runs_retrieve (remote_service running) (clock after_queued)
       (Some (tmpl (threadId after_queued)))
       (Some (tmpl (activeRunId after_queued))) = Inr in_progress_run"
    by (simp_all add: running_def lifecycle_service_def after_queued_def)
  from poll_status_ok [OF this] show ?thesis
    by (simp add: in_progress_run_def terminal_statuses Let_def await_def after_in_progress_def
        emit_def status_request_def GET_def)
       (simp add: after_queued_def watching_def fresh_def status_request_def GET_def)
qed

theorem polling_stops_exactly_at_terminal_status_witness:
  "fst (poll_chain 2 running watching) = Polling \<and>
   timers (snd (poll_chain 2 running watching)) = 2 \<and>
   refreshes (snd (poll_chain 2 running watching)) = 0 \<and>
   updates (snd (poll_chain 2 running watching)) = 0 \<and>
   messages (snd (poll_chain 2 running watching)) = PArray [] \<and>
   fst (poll_chain 3 running watching) = Finished \<and>
   timers (snd (poll_chain 3 running watching)) = 2 \<and>
   refreshes (snd (poll_chain 3 running watching)) = 1 \<and>
   updates (snd (poll_chain 3 running watching)) = 1 \<and>
   messages (snd (poll_chain 3 running watching)) = PMessagePage [newer, older] \<and>
   trace (snd (poll_chain 3 running watching)) =
     [Fetch (status_request watching), RunStatusChanged (Some ''queued''), SetTimeout 2000,
      Fetch (status_request watching), RunStatusChanged (Some ''in_progress''), SetTimeout 2000,
      Fetch (status_request watching), RunStatusChanged (Some ''completed''),
      Fetch (messages_request watching), MessagesUpdated (PMessagePage [newer, older])]"
proof -
  have thread: "truthy (threadId watching)"
    by (simp add: watching_def fresh_def truthy_def)
  have zero: "timers watching = 0" "refreshes watching = 0" "updates watching = 0"
    "messages watching = PArray []" "onMessagesUpdated watching = (\<lambda>p. p)"
    by (simp_all add: timers_def refreshes_def updates_def watching_def fresh_def)
  have one: "poll_chain 1 running watching = (Polling, after_queued)"
    by (simp add: poll_queued)
  have two: "poll_chain 2 running watching = (Polling, after_in_progress)"
    by (simp add: numeral_2_eq_2 poll_queued poll_in_progress)
  have net: "network running (clock after_queued)" "network running (clock after_in_progress)"
    by (simp_all add: running_def)
  have second: "runs_retrieve (remote_service running) (clock after_queued)
       (Some (tmpl (threadId after_queued)))
       (Some (tmpl (activeRunId after_queued))) = Inr in_progress_run"
    by (simp add: running_def lifecycle_service_def after_queued_def)
  have third: "runs_retrieve (remote_service running) (clock after_in_progress)
       (Some (tmpl (threadId after_in_progress)))
       (Some (tmpl (activeRunId after_in_progress))) = Inr completed_run"
    by (simp add: running_def lifecycle_service_def after_in_progress_def)
  have list: "network running (clock after_in_progress + 1) \<and>
      messages_list (remote_service running) (clock after_in_progress + 1)
        (Some (tmpl (threadId watching))) = Inr [newer, older]"
    by (simp add: running_def lifecycle_service_def)
  have tr: "trace after_in_progress =
     [Fetch (status_request watching), RunStatusChanged (Some ''queued''), SetTimeout 2000,
      Fetch (status_request watching), RunStatusChanged (Some ''in_progress''), SetTimeout 2000]"
    by (simp add: after_in_progress_def)
  have status: "run_status in_progress_run \<in> {''queued'', ''in_progress'', ''requires_action'', ''cancelling''}"
    "run_status completed_run \<in> {''completed'', ''failed'', ''cancelled'', ''expired''}"
    by (simp_all add: in_progress_run_def completed_run_def)
  note early = polling_stops_exactly_at_terminal_status
    [OF thread one net(1) second, of 0, THEN conjunct2, THEN mp, OF status(1)]
  note late = polling_stops_exactly_at_terminal_status
    [OF thread two net(2) third, of 0, THEN conjunct1, THEN mp, OF status(2)]
  note stored = late [THEN conjunct2, THEN conjunct2, THEN conjunct2, THEN spec, THEN mp, OF list]
  have fin: "fst (poll_chain 3 running watching) = Finished"
    using late [THEN conjunct1] by (simp del: poll_chain.simps)
  show ?thesis
    using early fin late [THEN conjunct2, THEN conjunct1]
      late [THEN conjunct2, THEN conjunct2, THEN conjunct1] stored
    by (simp add: zero tr completed_run_def numeral_2_eq_2 numeral_3_eq_3
        del: poll_chain.simps)
qed

section \<open>A declared function without a handler\<close>

lemma starts_with_append: "starts_with p (p @ ys)"
  by (induction p) simp_all

lemma search_append: "search p (xs @ p @ ys)"
proof (induction xs)
  case Nil
  show ?case by (cases "p @ ys") (use starts_with_append [of p ys] in \<open>auto\<close>)
next
  case (Cons x xs)
  then show ?case by simp
qed

lemma missing_handler_names: "search f (missing_handler n f)"
  unfolding missing_handler_def
  using search_append [of f "''The assistant '' @ n @ '' has the Function ''"
      "'' registered, but no handler was provided.''"]
  by simp

lemma check_tools_first:
  assumes "\<forall>u\<in>set pre. tool_type u = ''function'' \<longrightarrow> resolves ev s (tool_function_name u)"
    and "tool_type t = ''function''" "\<not> resolves ev s (tool_function_name t)"
  shows "check_tools ev s (pre @ t # post) =
           Some (Error (missing_handler (name_of (assistant s)) (tool_function_name t)))"
  using assms by (induction pre) auto

lemma check_tools_pass:
  assumes "\<forall>u\<in>set ts. tool_type u = ''function'' \<longrightarrow> resolves ev s (tool_function_name u)"
  shows "check_tools ev s ts = None"
  using assms by (induction ts) auto

lemma getAssistant_ok:
  assumes "network ev (clock s)"
    and "assistants_retrieve (remote_service ev) (clock s) (assistantId s) = Inr a"
  shows "tm_getAssistant ev s =
     (Inr (PAssistant a),
      (emit (Fetch (GET s [''_''])) (s\<lparr>clock := clock s + 1\<rparr>))\<lparr>assistant := Some (PAssistant a)\<rparr>)"
  using assms
  by (simp add: tm_getAssistant_def await_def fetch_ok_def fetch_def Let_def route_assistant
      ok_def)

lemma init_throws_at_first_unresolved:
  assumes net: "network ev (clock s)"
    and fetched: "assistants_retrieve (remote_service ev) (clock s) (assistantId s) = Inr a"
    and declared: "tools a = pre @ t # post"
    and earlier: "\<forall>u\<in>set pre. tool_type u = ''function'' \<longrightarrow> resolves ev s (tool_function_name u)"
    and typed: "tool_type t = ''function''"
    and missing: "\<not> resolves ev s (tool_function_name t)"
  shows "tm_init ev s =
           (Inl (Error (missing_handler (case assistant_name a of None \<Rightarrow> ''null'' | Some n \<Rightarrow> n)
                          (tool_function_name t))),
            emit (ConsoleError ''error getting assistant'')
              ((emit (Fetch (GET s [''_''])) (s\<lparr>clock := clock s + 1\<rparr>))
                 \<lparr>assistant := Some (PAssistant a)\<rparr>))"
proof -
  let ?s1 = "(emit (Fetch (GET s [''_''])) (s\<lparr>clock := clock s + 1\<rparr>))
               \<lparr>assistant := Some (PAssistant a)\<rparr>"
  have r: "resolves ev ?s1 = resolves ev s"
    by (rule ext) (simp add: resolves_def emit_def)
  have e: "\<forall>u\<in>set pre. tool_type u = ''function'' \<longrightarrow> resolves ev ?s1 (tool_function_name u)"
    unfolding r by (rule earlier)
  have m: "\<not> resolves ev ?s1 (tool_function_name t)"
    unfolding r by (rule missing)
  from check_tools_first [OF e typed m, of post] have c: "tm_checkAssistantFunctions ev ?s1 =
     (Inl (Error (missing_handler (name_of (assistant ?s1)) (tool_function_name t))),
      emit (ConsoleError ''error getting assistant'') ?s1)"
    using declared by (simp add: tm_checkAssistantFunctions_def tools_of_def)
  have "tm_init ev s =
     (Inl (Error (missing_handler (name_of (assistant ?s1)) (tool_function_name t))),
      emit (ConsoleError ''error getting assistant'') ?s1)"
    unfolding tm_init_def
    by (simp only: await_Inr [of "tm_getAssistant ev" s, OF getAssistant_ok [OF net fetched]]
        await_Inl [of "tm_checkAssistantFunctions ev" ?s1, OF c])
  then show ?thesis
    by (simp add: name_of_def emit_def)
qed

lemma init_passes_resolved_tools:
  assumes net: "network ev (clock s)"
    and fetched: "assistants_retrieve (remote_service ev) (clock s) (assistantId s) = Inr a"
    and resolved: "\<forall>u\<in>set (tools a). tool_type u = ''function'' \<longrightarrow>
                     resolves ev s (tool_function_name u)"
    and no_thread: "\<not> truthy (threadId s)"
  shows "tm_init ev s =
           (Inr (),
            emit Initialized
              ((emit (Fetch (GET s [''_''])) (s\<lparr>clock := clock s + 1\<rparr>))
                 \<lparr>assistant := Some (PAssistant a), initialized := True\<rparr>))"
proof -
  let ?s1 = "(emit (Fetch (GET s [''_''])) (s\<lparr>clock := clock s + 1\<rparr>))
               \<lparr>assistant := Some (PAssistant a)\<rparr>"
  have r: "resolves ev ?s1 = resolves ev s"
    by (rule ext) (simp add: resolves_def emit_def)
  have e: "\<forall>u\<in>set (tools a). tool_type u = ''function'' \<longrightarrow>
             resolves ev ?s1 (tool_function_name u)"
    unfolding r by (rule resolved)
  from check_tools_pass [OF e] have c: "tm_checkAssistantFunctions ev ?s1 = (Inr (), ?s1)"
    by (simp add: tm_checkAssistantFunctions_def tools_of_def)
  have "tm_init ev s = (Inr (), emit Initialized (?s1\<lparr>initialized := True\<rparr>))"
    unfolding tm_init_def
    by (simp only: await_Inr [of "tm_getAssistant ev" s, OF getAssistant_ok [OF net fetched]]
        await_Inr [of "tm_checkAssistantFunctions ev" ?s1, OF c])
      (simp add: await_def emit_def no_thread)
  then show ?thesis
    by (simp add: emit_def)
qed

lemma first_unresolved_tool:
  assumes "t \<in> set ts" "tool_type t = ''function''" "\<not> resolves ev s (tool_function_name t)"
  shows "\<exists>pre u post. ts = pre @ u # post \<and>
           (\<forall>v\<in>set pre. tool_type v = ''function'' \<longrightarrow> resolves ev s (tool_function_name v)) \<and>
           tool_type u = ''function'' \<and> \<not> resolves ev s (tool_function_name u)"
proof -
  from assms have "\<exists>x\<in>set ts. tool_type x = ''function'' \<and> \<not> resolves ev s (tool_function_name x)"
    by blast
  from split_list_first_prop [OF this] show ?thesis
    by blast
qed

text \<open>
  Hence a declared function-type tool for which the lookup gives nothing makes
  \<^verbatim>\<open>init\<close> throw, with the message for some such tool of the assistant: the first one.
\<close>

lemma unresolved_tool_fails_initialization:
  assumes net: "network ev (clock s)"
    and fetched: "assistants_retrieve (remote_service ev) (clock s) (assistantId s) = Inr a"
    and declared: "t \<in> set (tools a)" "tool_type t = ''function''"
    and missing: "\<not> resolves ev s (tool_function_name t)"
  shows "\<exists>u\<in>set (tools a). tool_type u = ''function'' \<and> \<not> resolves ev s (tool_function_name u) \<and>
           fst (tm_init ev s) =
             Inl (Error (missing_handler (case assistant_name a of None \<Rightarrow> ''null'' | Some n \<Rightarrow> n)
                           (tool_function_name u)))"
proof -
  from first_unresolved_tool [OF declared missing]
  obtain pre u post where d: "tools a = pre @ u # post"
    and e: "\<forall>v\<in>set pre. tool_type v = ''function'' \<longrightarrow> resolves ev s (tool_function_name v)"
    and u: "tool_type u = ''function''" "\<not> resolves ev s (tool_function_name u)"
    by blast
  from init_throws_at_first_unresolved [OF net fetched d e u] d u show ?thesis
    by (intro bexI [of _ u]) simp_all
qed

text \<open>
  The lookup \<^verbatim>\<open>this.functions?.[name]\<close> also finds what the function object inherits.
  With the default \<^verbatim>\<open>functions = {}\<close> and an assistant that declares a function named
  \<open>toString\<close>, for which the caller gave no handler, the check passes and
  initialisation completes.
\<close>

lemma inherited_member_passes_the_check:
  "tm_init printing (fresh bare_args) =
     (Inr (),
      (fresh bare_args)\<lparr>assistant := Some (PAssistant printer), initialized := True, clock := 1,
         trace := [Fetch (GET (fresh bare_args) [''_'']), Initialized]\<rparr>) \<and>
   functionMap (fresh bare_args) ''toString'' = None \<and>
   tools printer = [\<lparr> tool_type = ''function'', tool_function_name = ''toString'' \<rparr>]"
proof -
  have h: "network printing (clock (fresh bare_args))"
    "assistants_retrieve (remote_service printing) (clock (fresh bare_args))
       (assistantId (fresh bare_args)) = Inr printer"
    "\<forall>u\<in>set (tools printer). tool_type u = ''function'' \<longrightarrow>
       resolves printing (fresh bare_args) (tool_function_name u)"
    "\<not> truthy (threadId (fresh bare_args))"
    by (simp_all add: printing_def printer_def fresh_def bare_args_def resolves_def
        standard_prototype_def truthy_def)
  from init_passes_resolved_tools [OF h] show ?thesis
    by (simp add: emit_def fresh_def bare_args_def printer_def)
qed

text \<open>
  Claim C7 as worded does not hold. The assistant declares the function-type tools
  \<open>draw_sketch\<close> and \<open>generate_image\<close>, in this order, and the manager is made with an
  empty function map. \<^verbatim>\<open>forEach\<close> stops at the first throw, so the error of
  \<^verbatim>\<open>init\<close> names \<open>draw_sketch\<close>; \<open>generate_image\<close>, which has no handler either,
  does not occur in its message.
\<close>

theorem generate_image_not_named_counterexample:
  "image_tool \<in> set (tools illustrator) \<and> tool_type image_tool = ''function'' \<and>
   tool_function_name image_tool = ''generate_image'' \<and>
   functionMap (fresh bare_args) = Map.empty \<and>
   \<not> resolves illustrating (fresh bare_args) ''generate_image'' \<and>
   fst (tm_init illustrating (fresh bare_args)) =
     Inl (Error ''The assistant Illustrator has the Function draw_sketch registered, but no handler was provided.'') \<and>
   \<not> search ''generate_image''
       ''The assistant Illustrator has the Function draw_sketch registered, but no handler was provided.''"
proof -
  have h: "network illustrating (clock (fresh bare_args))"
    "assistants_retrieve (remote_service illustrating) (clock (fresh bare_args))
       (assistantId (fresh bare_args)) = Inr illustrator"
    "tools illustrator = [] @ sketch_tool # [image_tool]"
    "\<forall>u\<in>set []. tool_type u = ''function'' \<longrightarrow>
       resolves illustrating (fresh bare_args) (tool_function_name u)"
    "tool_type sketch_tool = ''function''"
    "\<not> resolves illustrating (fresh bare_args) (tool_function_name sketch_tool)"
    by (simp_all add: illustrating_def illustrator_def sketch_tool_def fresh_def bare_args_def
        resolves_def standard_prototype_def)
  have "fst (tm_init illustrating (fresh bare_args)) =
     Inl (Error ''The assistant Illustrator has the Function draw_sketch registered, but no handler was provided.'')"
    unfolding init_throws_at_first_unresolved [OF h]
    by (simp add: missing_handler_def illustrator_def sketch_tool_def)
  moreover have "\<not> search ''generate_image''
       ''The assistant Illustrator has the Function draw_sketch registered, but no handler was provided.''"
    by simp
  ultimately show ?thesis
    by (simp add: illustrator_def image_tool_def fresh_def bare_args_def resolves_def
        standard_prototype_def illustrating_def)
qed

text \<open>
  Claim C7, corrected. The assistant is fetched and its tools are \<open>pre @ t # post\<close>, where
  \<open>t\<close> is a function-type tool whose name is neither a handler of the caller nor an
  inherited member of the function object, and every function-type tool of \<open>pre\<close> has one
  or the other: \<open>t\<close> is the first declared function-type tool for which the lookup
  \<^verbatim>\<open>this.functions?.[name]\<close> gives nothing. Then \<^verbatim>\<open>init\<close> throws the \<^verbatim>\<open>Error\<close>
  of \<^verbatim>\<open>checkAssistantFunctions\<close> for \<open>t\<close>, whose message contains the function name of
  \<open>t\<close>; before throwing it has fetched and stored the assistant and logged the error, and
  nothing else. The tools of \<open>post\<close> are not looked at. The witness is the assistant
  whose only function-type tool is \<open>generate_image\<close>, with an empty function map.
\<close>

theorem missing_handler_fails_initialization:
  assumes net: "network ev (clock s)"
    and fetched: "assistants_retrieve (remote_service ev) (clock s) (assistantId s) = Inr a"
    and declared: "tools a = pre @ t # post"
    and earlier: "\<forall>u\<in>set pre. tool_type u = ''function'' \<longrightarrow>
                    functionMap s (tool_function_name u) \<noteq> None \<or>
                    Object_prototype ev (tool_function_name u) \<noteq> None"
    and typed: "tool_type t = ''function''"
    and missing: "functionMap s (tool_function_name t) = None"
                 "Object_prototype ev (tool_function_name t) = None"
  shows "tm_init ev s =
           (Inl (Error (missing_handler (case assistant_name a of None \<Rightarrow> ''null'' | Some n \<Rightarrow> n)
                          (tool_function_name t))),
            s\<lparr>assistant := Some (PAssistant a), clock := clock s + 1,
              trace := trace s @ [Fetch (GET s [''_'']), ConsoleError ''error getting assistant'']\<rparr>) \<and>
         search (tool_function_name t)
           (missing_handler (case assistant_name a of None \<Rightarrow> ''null'' | Some n \<Rightarrow> n)
              (tool_function_name t))"
proof -
  have e: "\<forall>u\<in>set pre. tool_type u = ''function'' \<longrightarrow> resolves ev s (tool_function_name u)"
    using earlier by (simp add: resolves_def)
  have m: "\<not> resolves ev s (tool_function_name t)"
    using missing by (simp add: resolves_def)
  from init_throws_at_first_unresolved [OF net fetched declared e typed m]
    missing_handler_names
  show ?thesis
    by (simp add: emit_def)
qed

theorem missing_handler_fails_initialization_witness:
  "tm_init painting (fresh bare_args) =
     (Inl (Error ''The assistant Painter has the Function generate_image registered, but no handler was provided.''),
      (fresh bare_args)\<lparr>assistant := Some (PAssistant painter), clock := 1,
         trace := [Fetch (GET (fresh bare_args) [''_'']),
                   ConsoleError ''error getting assistant'']\<rparr>) \<and>
   search ''generate_image''
     ''The assistant Painter has the Function generate_image registered, but no handler was provided.''"
proof -
  have h: "network painting (clock (fresh bare_args))"
    "assistants_retrieve (remote_service painting) (clock (fresh bare_args))
       (assistantId (fresh bare_args)) = Inr painter"
    "tools painter = [\<lparr> tool_type = ''code_interpreter'', tool_function_name = '''' \<rparr>] @
                       image_tool # []"
    "\<forall>u\<in>set [\<lparr> tool_type = ''code_interpreter'', tool_function_name = '''' \<rparr>].
       tool_type u = ''function'' \<longrightarrow>
       functionMap (fresh bare_args) (tool_function_name u) \<noteq> None \<or>
       Object_prototype painting (tool_function_name u) \<noteq> None"
    "tool_type image_tool = ''function''"
    "functionMap (fresh bare_args) (tool_function_name image_tool) = None"
    "Object_prototype painting (tool_function_name image_tool) = None"
    by (simp_all add: painting_def painter_service_def painter_def image_tool_def fresh_def
        bare_args_def standard_prototype_def)
  from missing_handler_fails_initialization [OF h] show ?thesis
    by (simp add: missing_handler_def painter_def image_tool_def fresh_def bare_args_def)
qed

section \<open>The binding hook\<close>

lemma deliver_after_first_render:
  assumes "h_ref h = Some initial_state"
  shows "deliver_messages (PMessagePage ms) h =
     (if ms = [] then h else h\<lparr>h_state := setMessages (rev ms) (h_state h)\<rparr>)"
  using assms
  by (simp add: deliver_messages_def hook_onMessagesUpdated_def data_of_def initial_state_def
      render_def)

text \<open>
  Claim C8 says that a delivery whose list is deep-equal to the list the hook holds does
  not update the message state. The callback compares the delivered list with
  \<^verbatim>\<open>messages\<close> as the render that created the manager saw it, and that is the first
  render, where it is the empty list. So for any message \<open>m\<close>: the first delivery of
  the list \<open>[m]\<close> puts \<open>[m]\<close> into the state, and a second delivery of the same list,
  deep-equal to what the hook now holds, calls \<^verbatim>\<open>setMessages\<close> again.
\<close>

theorem same_list_delivered_twice_updates_twice:
  "h_ref (render mount) = Some initial_state \<and>
   h_messages (h_state (deliver_messages (PMessagePage [m]) (render mount))) = [m] \<and>
   h_log (h_state (deliver_messages (PMessagePage [m]) (render mount))) = [SetMessages [m]] \<and>
   h_log (h_state (deliver_messages (PMessagePage [m])
            (deliver_messages (PMessagePage [m]) (render mount)))) =
     [SetMessages [m], SetMessages [m]]"
  by (simp add: deliver_after_first_render ref_of_first_render)
     (simp add: setMessages_def render_def mount_def initial_state_def)

lemma getMessages_extends: "\<exists>rest. trace (snd (tm_getMessages ev s)) = trace s @ rest"
  by (simp add: tm_getMessages_def await_def fetch_ok_def fetch_def Let_def emit_def)

lemma startRun_extends: "\<exists>rest. trace (snd (tm_startRun ev runArgs s)) = trace s @ rest"
  by (simp add: tm_startRun_def await_def fetch_ok_def fetch_def Let_def emit_def detach_def
      tm_pollRunStatus_def)

lemma sendMessage_first_request:
  assumes "truthy (threadId s)"
  shows "\<exists>rest. trace (snd (tm_sendMessage ev content runInstructions s)) =
           trace s @ Fetch (message_request s content runInstructions) # rest"
proof -
  let ?s1 = "emit (Fetch (message_request s content runInstructions)) (s\<lparr>clock := clock s + 1\<rparr>)"
  obtain res where f: "fetch_ok ev (message_request s content runInstructions)
      ''Failed to send message'' s = (res, ?s1)"
    using fetch_ok_state [of ev "message_request s content runInstructions"
        "''Failed to send message''" s]
    by (cases "fetch_ok ev (message_request s content runInstructions) ''Failed to send message'' s")
      simp
  show ?thesis
  proof (cases res)
    case (Inl e)
    with f assms show ?thesis
      by (simp add: tm_sendMessage_def message_request_def [symmetric] await_def emit_def)
  next
    case (Inr message)
    obtain r1 s2 where g: "tm_getMessages ev ?s1 = (r1, s2)"
      by (cases "tm_getMessages ev ?s1")
    obtain rest1 where e1: "trace s2 = trace ?s1 @ rest1"
      using getMessages_extends [of ev ?s1] g by auto
    obtain r2 s3 where h: "tm_startRun ev (JObj []) s2 = (r2, s3)"
      by (cases "tm_startRun ev (JObj []) s2")
    obtain rest2 where e2: "trace s3 = trace s2 @ rest2"
      using startRun_extends [of ev "JObj []" s2] h by auto
    from f Inr assms g h e1 e2 show ?thesis
      by (cases r1; cases r2)
         (simp_all add: tm_sendMessage_def message_request_def [symmetric] await_def emit_def)
  qed
qed

text \<open>
  Claim C9. The hook's \<^verbatim>\<open>sendMessage\<close>, in a render that has the manager, on a manager
  with a thread: whatever the content, the first request the manager sends is the POST
  to the thread's messages whose body holds the caller's content and, under
  \<^verbatim>\<open>runInstructions\<close>, the string fixed in the hook.
\<close>

theorem hook_sends_fixed_run_instructions:
  assumes "truthy (threadId m)"
  shows "\<exists>m' rest.
           fst (snd (hook_sendMessage ev content (Some m, hs))) = Some m' \<and>
           trace m' =
             trace m @
             Fetch \<lparr> req_method = ''POST'', req_assistantId = assistantId m,
                     req_params = [''threads'', tmpl (threadId m), ''messages''],
                     req_body = Some (JObj [(''content'', JStr content),
                       (''runInstructions'',
                        JStr ''The user is a 4 year old girl named Sophia...'')]) \<rparr> # rest"
proof -
  obtain res m' where r: "tm_sendMessage ev content (Some run_instructions) m = (res, m')"
    by (cases "tm_sendMessage ev content (Some run_instructions) m")
  from sendMessage_first_request [OF assms, of ev content "Some run_instructions"] r
  obtain rest where "trace m' = trace m @ Fetch (message_request m content (Some run_instructions)) # rest"
    by auto
  then have "trace m' =
             trace m @
             Fetch \<lparr> req_method = ''POST'', req_assistantId = assistantId m,
                     req_params = [''threads'', tmpl (threadId m), ''messages''],
                     req_body = Some (JObj [(''content'', JStr content),
                       (''runInstructions'',
                        JStr ''The user is a 4 year old girl named Sophia...'')]) \<rparr> # rest"
    by (simp add: message_request_def POST_def run_instructions_def property_order_def)
  moreover have "fst (snd (hook_sendMessage ev content (Some m, hs))) = Some m'"
    using r by (cases res) (simp_all add: hook_sendMessage_def)
  ultimately show ?thesis by blast
qed

theorem hook_sends_fixed_run_instructions_witness:
  "hd (trace (the (fst (snd (hook_sendMessage sending ''hello'' (Some plain_manager, initial_state)))))) =
     Fetch \<lparr> req_method = ''POST'', req_assistantId = ''A1'',
             req_params = [''threads'', ''T1'', ''messages''],
             req_body = Some (JObj [(''content'', JStr ''hello''),
               (''runInstructions'', JStr ''The user is a 4 year old girl named Sophia...'')]) \<rparr>"
proof -
  have t: "truthy (threadId plain_manager)"
    by (simp add: plain_manager_def fresh_def truthy_def)
  from hook_sends_fixed_run_instructions [OF t, of sending "''hello''" initial_state]
  show ?thesis
    by (auto simp add: plain_manager_def fresh_def tmpl_def)
qed

text \<open>
  While the manager sends the message it calls the hook's callbacks, and their setter
  calls land in the hook state between \<^verbatim>\<open>setLoading(true)\<close> and the end of the
  operation: the refreshed list, reversed, and the status of the new run. When the first
  request fails no callback runs, and \<^verbatim>\<open>handleOperation\<close> records the error.
\<close>

lemma hook_sendMessage_runs_callbacks:
  "h_log (snd (snd (hook_sendMessage sending ''hello'' (Some hook_manager, initial_state)))) =
     [SetLoading True, SetMessages [older, newer, greeting], SetLoading True,
      SetRunStatus (Some ''queued'')] \<and>
   fst (hook_sendMessage sending ''hello'' (Some hook_manager, initial_state)) =
     Some (PMessage greeting) \<and>
   h_log (snd (snd (hook_sendMessage failing ''hello'' (Some hook_manager, initial_state)))) =
     [SetLoading True, SetLoading False, SetError (Error ''Failed to send message'')]"
  by code_simp

section \<open>The constructor\<close>

lemma await_keeps:
  assumes "\<And>s. P s \<Longrightarrow> P (snd (m s))"
    and "\<And>x s. P s \<Longrightarrow> P (snd (f x s))"
    and "P s"
  shows "P (snd (await m f s))"
proof (cases "m s")
  case (Pair r s')
  with assms(1) [OF assms(3)] have "P s'" by simp
  with Pair assms(2) show ?thesis
    by (cases r) (simp_all add: await_def)
qed

lemma await_fails_keeps:
  assumes "\<And>s. P s \<Longrightarrow> P (snd (m s))"
    and "\<And>x s. P s \<Longrightarrow> fst (f x s) = Inl e \<Longrightarrow> P (snd (f x s))"
    and "P s" and "fst (await m f s) = Inl e"
  shows "P (snd (await m f s))"
proof (cases "m s")
  case (Pair r s')
  with assms(1) [OF assms(3)] have "P s'" by simp
  with Pair assms(2,4) show ?thesis
    by (cases r) (simp_all add: await_def)
qed

lemma fetch_ok_uninitialised:
  "uninitialised s \<Longrightarrow> uninitialised (snd (fetch_ok ev req msg s))"
  by (simp add: fetch_ok_state uninitialised_def emit_def)

lemma getAssistant_uninitialised:
  "uninitialised s \<Longrightarrow> uninitialised (snd (tm_getAssistant ev s))"
  unfolding tm_getAssistant_def
  by (rule await_keeps [where P = uninitialised])
     (simp_all add: fetch_ok_uninitialised, simp add: uninitialised_def)

lemma checkAssistantFunctions_uninitialised:
  "uninitialised s \<Longrightarrow> uninitialised (snd (tm_checkAssistantFunctions ev s))"
  by (simp add: tm_checkAssistantFunctions_def uninitialised_def emit_def
      split: option.splits)

lemma getThread_uninitialised:
  "uninitialised s \<Longrightarrow> uninitialised (snd (tm_getThread ev s))"
proof (cases "truthy (threadId s)")
  case False
  assume "uninitialised s"
  with False show ?thesis by (simp add: tm_getThread_def)
next
  case True
  assume u: "uninitialised s"
  have "uninitialised (snd (await (fetch_ok ev (GET s [''threads'', tmpl (threadId s), ''_''])
                    ''Failed to retrieve thread'')
             (\<lambda>data s. (Inr data, s\<lparr>thread := Some data\<rparr>)) s))"
    by (rule await_keeps [where P = uninitialised])
       (simp_all add: fetch_ok_uninitialised u, simp add: uninitialised_def)
  with True show ?thesis by (simp add: tm_getThread_def)
qed

lemma getMessages_uninitialised:
  "uninitialised s \<Longrightarrow> uninitialised (snd (tm_getMessages ev s))"
proof (cases "truthy (threadId s)")
  case False
  assume "uninitialised s"
  with False show ?thesis by (simp add: tm_getMessages_def)
next
  case True
  assume u: "uninitialised s"
  have "uninitialised (snd (await (fetch_ok ev (GET s [''threads'', tmpl (threadId s), ''messages''])
                    ''Failed to retrieve messages'')
             (\<lambda>data s. (Inr (onMessagesUpdated s data),
                 (emit (MessagesUpdated data) s)\<lparr>messages := onMessagesUpdated s data\<rparr>)) s))"
    by (rule await_keeps [where P = uninitialised])
       (simp_all add: fetch_ok_uninitialised u, simp add: uninitialised_def emit_def)
  with True show ?thesis by (simp add: tm_getMessages_def)
qed

lemma checkForActiveRun_uninitialised:
  "uninitialised s \<Longrightarrow> uninitialised (snd (tm_checkForActiveRun ev s))"
  by (simp add: tm_checkForActiveRun_def await_def fetch_ok_def fetch_def
      route_runs_latest ok_def Let_def uninitialised_def emit_def)

lemma init_fails_uninitialised:
  assumes "uninitialised s" and "fst (tm_init ev s) = Inl e"
  shows "uninitialised (snd (tm_init ev s))"
  unfolding tm_init_def
proof (rule await_fails_keeps [where P = uninitialised and e = e])
  show "uninitialised s" by fact
  show "fst (await (tm_getAssistant ev) (\<lambda>_.
     await (tm_checkAssistantFunctions ev) (\<lambda>_.
     await (\<lambda>s. if truthy (threadId s)
                then await (tm_getThread ev) (\<lambda>_.
                     await (tm_getMessages ev) (\<lambda>_.
                     await (tm_checkForActiveRun ev) (\<lambda>_ s. (Inr (), s)))) s
                else (Inr (), s)) (\<lambda>_ s.
     (Inr (), emit Initialized (s\<lparr>initialized := True\<rparr>))))) s) = Inl e"
    using assms(2) by (simp add: tm_init_def)
next
  fix s assume "uninitialised s"
  then show "uninitialised (snd (tm_getAssistant ev s))"
    by (rule getAssistant_uninitialised)
next
  fix x :: payload and s
  assume u: "uninitialised s"
    and f: "fst (await (tm_checkAssistantFunctions ev) (\<lambda>_.
     await (\<lambda>s. if truthy (threadId s)
                then await (tm_getThread ev) (\<lambda>_.
                     await (tm_getMessages ev) (\<lambda>_.
                     await (tm_checkForActiveRun ev) (\<lambda>_ s. (Inr (), s)))) s
                else (Inr (), s)) (\<lambda>_ s.
     (Inr (), emit Initialized (s\<lparr>initialized := True\<rparr>)))) s) = Inl e"
  show "uninitialised (snd (await (tm_checkAssistantFunctions ev) (\<lambda>_.
     await (\<lambda>s. if truthy (threadId s)
                then await (tm_getThread ev) (\<lambda>_.
                     await (tm_getMessages ev) (\<lambda>_.
                     await (tm_checkForActiveRun ev) (\<lambda>_ s. (Inr (), s)))) s
                else (Inr (), s)) (\<lambda>_ s.
     (Inr (), emit Initialized (s\<lparr>initialized := True\<rparr>)))) s))"
  proof (rule await_fails_keeps [where P = uninitialised and e = e, OF _ _ u f])
    fix s assume "uninitialised s"
    then show "uninitialised (snd (tm_checkAssistantFunctions ev s))"
      by (rule checkAssistantFunctions_uninitialised)
  next
    fix y :: unit and s
    assume u: "uninitialised s"
      and f: "fst (await (\<lambda>s. if truthy (threadId s)
                then await (tm_getThread ev) (\<lambda>_.
                     await (tm_getMessages ev) (\<lambda>_.
                     await (tm_checkForActiveRun ev) (\<lambda>_ s. (Inr (), s)))) s
                else (Inr (), s)) (\<lambda>_ s.
     (Inr (), emit Initialized (s\<lparr>initialized := True\<rparr>))) s) = Inl e"
    show "uninitialised (snd (await (\<lambda>s. if truthy (threadId s)
                then await (tm_getThread ev) (\<lambda>_.
                     await (tm_getMessages ev) (\<lambda>_.
                     await (tm_checkForActiveRun ev) (\<lambda>_ s. (Inr (), s)))) s
                else (Inr (), s)) (\<lambda>_ s.
     (Inr (), emit Initialized (s\<lparr>initialized := True\<rparr>))) s))"
    proof (rule await_fails_keeps [where P = uninitialised and e = e, OF _ _ u f])
      fix s assume v: "uninitialised s"
      have "uninitialised (snd (await (tm_getThread ev) (\<lambda>_.
                     await (tm_getMessages ev) (\<lambda>_.
                     await (tm_checkForActiveRun ev) (\<lambda>_ s. (Inr (), s)))) s))"
        by (intro await_keeps [where P = uninitialised] getThread_uninitialised
            getMessages_uninitialised checkForActiveRun_uninitialised v) simp_all
      with v show "uninitialised (snd (if truthy (threadId s)
                then await (tm_getThread ev) (\<lambda>_.
                     await (tm_getMessages ev) (\<lambda>_.
                     await (tm_checkForActiveRun ev) (\<lambda>_ s. (Inr (), s)))) s
                else (Inr (), s)))"
        by simp
    next
      fix z :: unit and s
      assume "fst (Inr () :: error + unit, emit Initialized (s\<lparr>initialized := True\<rparr>)) = Inl e"
      then show "uninitialised (snd (Inr () :: error + unit, emit Initialized (s\<lparr>initialized := True\<rparr>)))"
        by simp
    qed
  qed
qed

lemma fresh_uninitialised: "uninitialised (fresh a)"
  by (simp add: uninitialised_def fresh_def)

text \<open>
  Claim C10. The constructor returns a manager for every environment and every
  argument record: \<^verbatim>\<open>init\<close> is started and not awaited. When \<^verbatim>\<open>init\<close> fails, with
  whatever error (the missing handler of the witness included), the error is left as an
  unhandled rejection, the last thing in the trace; the manager is not marked
  initialised and \<^verbatim>\<open>onInitialized\<close> has not been called.
\<close>

theorem constructor_returns_and_hides_failure:
  "\<exists>m. constructor ev a = Inr m \<and>
        (\<forall>e. fst (tm_init ev (fresh a)) = Inl e \<longrightarrow>
           Initialized \<notin> set (trace m) \<and> \<not> initialized m \<and>
           trace m = trace (snd (tm_init ev (fresh a))) @ [UnhandledRejection e])"
proof -
  have "Initialized \<notin> set (trace (detach (tm_init ev) (fresh a))) \<and>
        \<not> initialized (detach (tm_init ev) (fresh a)) \<and>
        trace (detach (tm_init ev) (fresh a)) =
          trace (snd (tm_init ev (fresh a))) @ [UnhandledRejection e]"
    if f: "fst (tm_init ev (fresh a)) = Inl e" for e
  proof -
    obtain s' where i: "tm_init ev (fresh a) = (Inl e, s')"
      using f by (cases "tm_init ev (fresh a)") simp
    have "uninitialised s'"
      using init_fails_uninitialised [OF fresh_uninitialised f] i by simp
    then show ?thesis
      by (simp add: detach_def i emit_def uninitialised_def)
  qed
  then show ?thesis
    unfolding constructor_def by blast
qed

theorem constructor_returns_and_hides_failure_witness:
  "(case constructor painting bare_args of
      Inl e \<Rightarrow> False
    | Inr m \<Rightarrow>
        \<not> initialized m \<and>
        trace m =
          [Fetch (GET (fresh bare_args) [''_'']),
           ConsoleError ''error getting assistant'',
           UnhandledRejection (Error ''The assistant Painter has the Function generate_image registered, but no handler was provided.'')])"
proof -
  have h: "network painting (clock (fresh bare_args))"
    "assistants_retrieve (remote_service painting) (clock (fresh bare_args))
       (assistantId (fresh bare_args)) = Inr painter"
    by (simp_all add: painting_def painter_service_def)
  have d: "tools painter = [\<lparr> tool_type = ''code_interpreter'', tool_function_name = '''' \<rparr>] @
                       image_tool # []"
    "\<forall>u\<in>set [\<lparr> tool_type = ''code_interpreter'', tool_function_name = '''' \<rparr>].
       tool_type u = ''function'' \<longrightarrow> resolves painting (fresh bare_args) (tool_function_name u)"
    "tool_type image_tool = ''function''"
    "\<not> resolves painting (fresh bare_args) (tool_function_name image_tool)"
    by (simp_all add: painting_def painter_def image_tool_def fresh_def bare_args_def
        resolves_def standard_prototype_def)
  let ?s1 = "(emit (Fetch (GET (fresh bare_args) [''_''])) ((fresh bare_args)\<lparr>clock := clock (fresh bare_args) + 1\<rparr>))
               \<lparr>assistant := Some (PAssistant painter)\<rparr>"
  have i: "tm_init painting (fresh bare_args) =
     (Inl (Error ''The assistant Painter has the Function generate_image registered, but no handler was provided.''),
      emit (ConsoleError ''error getting assistant'') ?s1)"
    unfolding init_throws_at_first_unresolved [OF h d]
    by (simp add: missing_handler_def painter_def image_tool_def)
  from constructor_returns_and_hides_failure [of painting bare_args]
  obtain m where m: "constructor painting bare_args = Inr m"
    and f: "\<forall>e. fst (tm_init painting (fresh bare_args)) = Inl e \<longrightarrow>
           Initialized \<notin> set (trace m) \<and> \<not> initialized m \<and>
           trace m = trace (snd (tm_init painting (fresh bare_args))) @ [UnhandledRejection e]"
    by blast
  from f i have "\<not> initialized m \<and>
     trace m = trace (emit (ConsoleError ''error getting assistant'') ?s1) @
       [UnhandledRejection (Error ''The assistant Painter has the Function generate_image registered, but no handler was provided.'')]"
    by simp
  then show ?thesis
    by (simp add: m emit_def) (simp add: fresh_def)
qed

section \<open>Initialisation with a thread id\<close>

lemma threadId_kept:
  "threadId (snd (tm_getAssistant ev s)) = threadId s"
  "threadId (snd (tm_checkAssistantFunctions ev s)) = threadId s"
  "threadId (snd (tm_getThread ev s)) = threadId s"
  "threadId (snd (tm_getMessages ev s)) = threadId s"
  by (simp_all add: tm_getAssistant_def tm_checkAssistantFunctions_def tm_getThread_def
      tm_getMessages_def await_def fetch_ok_def fetch_def Let_def emit_def
      split: option.splits)

text \<open>
  A consequence of the missing \<^verbatim>\<open>runs/latest\<close> route: when a thread id is supplied,
  \<^verbatim>\<open>init\<close> fails whatever the remote service answers, at the latest in
  \<^verbatim>\<open>checkForActiveRun\<close>, and by the lemma \<open>init_fails_uninitialised\<close> the manager
  never signals \<^verbatim>\<open>onInitialized\<close>.
\<close>

lemma init_with_thread_fails:
  assumes "truthy (threadId s)"
  shows "\<exists>e. fst (tm_init ev s) = Inl e"
proof -
  obtain r1 s1 where a: "tm_getAssistant ev s = (r1, s1)"
    by (cases "tm_getAssistant ev s")
  obtain r2 s2 where c: "tm_checkAssistantFunctions ev s1 = (r2, s2)"
    by (cases "tm_checkAssistantFunctions ev s1")
  obtain r3 s3 where g: "tm_getThread ev s2 = (r3, s3)"
    by (cases "tm_getThread ev s2")
  obtain r4 s4 where m: "tm_getMessages ev s3 = (r4, s4)"
    by (cases "tm_getMessages ev s3")
  obtain r5 s5 where k: "tm_checkForActiveRun ev s4 = (r5, s5)"
    by (cases "tm_checkForActiveRun ev s4")
  have t: "truthy (threadId s2)"
    using threadId_kept(1) [of ev s] threadId_kept(2) [of ev s1] a c assms by simp
  obtain e where e: "r5 = Inl e"
    using checkForActiveRun_result [of ev s4] k by simp
  show ?thesis
    by (cases r1; cases r2; cases r3; cases r4)
       (simp_all add: tm_init_def await_def a c g m k e t)
qed


end
